theory Spec2Isabelle
  imports Main "HOL-Library.Sublist"
begin

section \<open>Go values used by the cluster package\<close>

text \<open>
  Go strings are byte strings: \<open>string\<close>. A Go byte slice can be \<open>nil\<close>, and the source
  tests for it (\<open>bundle.data == nil\<close>), so a slice is a \<open>string option\<close> with \<open>None\<close> for
  the nil slice; \<open>Some []\<close> is the empty, non-nil slice.
\<close>

type_synonym bytes = "string option"

text \<open>\<open>string(b)\<close> on a byte slice: the nil slice converts to the empty string.\<close>

definition string_of_bytes :: "bytes \<Rightarrow> string" where
  "string_of_bytes b = (case b of None \<Rightarrow> [] | Some s \<Rightarrow> s)"

text \<open>Indexing a Go map yields the zero value of the element type for a missing key.\<close>

definition index_str :: "(string \<rightharpoonup> string) \<Rightarrow> string \<Rightarrow> string" where
  "index_str m k = (case m k of None \<Rightarrow> [] | Some v \<Rightarrow> v)"

definition index_bytes :: "(string \<rightharpoonup> bytes) \<Rightarrow> string \<Rightarrow> bytes" where
  "index_bytes m k = (case m k of None \<Rightarrow> None | Some v \<Rightarrow> v)"

subsection \<open>The standard library: strings.Split, strings.Join, path.Clean, path.Join\<close>

text \<open>
  \<open>strings.Split(s, sep)\<close> for a one-byte separator, the only use in the source
  (\<open>","\<close> and \<open>"/"\<close>): the result always has at least one element, and splitting the
  empty string gives one empty element.
\<close>

fun Split :: "string \<Rightarrow> char \<Rightarrow> string list" where
  "Split [] sep = [[]]"
| "Split (c # cs) sep =
     (if c = sep then [] # Split cs sep
      else (case Split cs sep of
              [] \<Rightarrow> [[c]]
            | x # xs \<Rightarrow> (c # x) # xs))"

fun join_with :: "string \<Rightarrow> string list \<Rightarrow> string" where
  "join_with sep [] = []"
| "join_with sep [x] = x"
| "join_with sep (x # y # ys) = x @ sep @ join_with sep (y # ys)"

text \<open>
  \<open>path.Clean\<close>, by path elements. \<open>clean_elem\<close> consumes one element of the input
  against the output built so far (its last element first): empty and \<open>.\<close> elements
  are dropped, \<open>..\<close> removes the preceding element when there is one that is not itself
  \<open>..\<close>, is dropped at the root of a rooted path, and is kept otherwise.
\<close>

definition clean_elem :: "bool \<Rightarrow> string list \<Rightarrow> string \<Rightarrow> string list" where
  "clean_elem rooted out e =
     (if e = [] \<or> e = ''.'' then out
      else if e = ''..'' then
        (case out of
           [] \<Rightarrow> if rooted then [] else [''..'']
         | x # xs \<Rightarrow> if x \<noteq> ''..'' then xs else if rooted then out else ''..'' # out)
      else e # out)"

definition Clean :: "string \<Rightarrow> string" where
  "Clean p =
     (if p = [] then ''.''
      else
        let rooted = (hd p = CHR ''/'');
            out = join_with ''/'' (rev (foldl (clean_elem rooted) [] (Split p CHR ''/'')))
        in if rooted then CHR ''/'' # out
           else if out = [] then ''.'' else out)"

text \<open>\<open>path.Join\<close>: empty elements are ignored, the result is cleaned, and joining
  nothing (or only empty elements) is the empty string.\<close>

definition Join :: "string list \<Rightarrow> string" where
  "Join elem =
     (let es = filter (\<lambda>e. e \<noteq> []) elem
      in if es = [] then [] else Clean (join_with ''/'' es))"

section \<open>The Kubernetes objects and the client\<close>

record Secret =
  secret_Labels :: "string \<rightharpoonup> string"
  secret_Data :: "string \<rightharpoonup> bytes"

record ConfigMap =
  cm_Labels :: "string \<rightharpoonup> string"
  cm_Data :: "string \<rightharpoonup> string"

text \<open>
  The part of \<open>kubernetes.Clientset\<close> the package calls. Each call either fails with the
  API's message or returns the object; the first argument is the namespace.
  \<open>listSecrets ns selector\<close> is \<open>Secrets(ns).List\<close> with a label selector, in the order
  the API returns the items.
\<close>

record kube =
  listSecrets :: "string \<Rightarrow> string \<Rightarrow> string + Secret list"
  getSecret :: "string \<Rightarrow> string \<Rightarrow> string + Secret"
  getConfigMap :: "string \<Rightarrow> string \<Rightarrow> string + ConfigMap"

section \<open>Errors\<close>

text \<open>One constructor per \<open>fmt.Errorf\<close> of the two source files, with its arguments.\<close>

datatype error =
    ListSecretsFailed string                \<comment> \<open>failed to list secrets: e\<close>
  | CredentialNotFound string               \<comment> \<open>did not find argocd repository matching url\<close>
  | GetInlineBundlesFailed error            \<comment> \<open>failed to get inline bundles: e\<close>
  | CloneFailed string                      \<comment> \<open>failed to clone repository: e\<close>
  | WorktreeFailed string                   \<comment> \<open>failed to get repo worktree: e\<close>
  | CopyEmbeddedFailed error                \<comment> \<open>failed to copy embedded content: e\<close>
  | CopyInlineBundlesFailed error           \<comment> \<open>failed to copy inline bundles: e\<close>
  | CommitFailed string                     \<comment> \<open>failed to commit changes: e\<close>
  | PushFailed string                       \<comment> \<open>failed to push to remote repository: e\<close>
  | ReadEmbeddedDirFailed string            \<comment> \<open>failed to read embedded directory: e\<close>
  | OpenEmbeddedFailed string string        \<comment> \<open>failed to open embedded file path: e\<close>
  | CreateDestinationFailed string string   \<comment> \<open>failed to create destination file path: e\<close>
  | CopyEmbeddedFileFailed string           \<comment> \<open>failed to copy embedded file: e\<close>
  | GetProfileFailed string                 \<comment> \<open>failed to get profile configmap: e\<close>
  | ProfileLabelMissing                     \<comment> \<open>profile configmap does not have expected label\<close>
  | ProfileHasNoBundles                     \<comment> \<open>profile has no bundles\<close>
  | GetBundleSecretFailed string string     \<comment> \<open>failed to get bundle secret name: e\<close>
  | TemplateParseFailed string              \<comment> \<open>failed to create app template: e\<close>
  | MkdirFailed string                      \<comment> \<open>failed to create directory in working tree: e\<close>
  | CreateFileFailed string                 \<comment> \<open>failed to create file in working tree: e\<close>
  | MissingPayload string                   \<comment> \<open>inline bundle name has no data\<close>
  | CopyBundleFailed string string          \<comment> \<open>failed to copy inline bundle name: e\<close>
  | CreateAppFileFailed string string       \<comment> \<open>failed to create application file path: e\<close>
  | RenderTemplateFailed string string      \<comment> \<open>failed to render application template path: e\<close>
  | GetClusterSpecFailed string             \<comment> \<open>failed to get clusterspec configmap: e\<close>

section \<open>Credential lookup (DeployToGit, the loop over the listed secrets)\<close>

record RepoCreds =
  Url :: string
  Username :: string
  Password :: string

text \<open>
  The \<open>for ... range secrets.Items\<close> loop of \<open>DeployToGit\<close>: the first secret whose
  \<open>url\<close> entry compares equal to \<open>repoUrl\<close> (\<open>strings.Compare(a, b) == 0\<close> is equality
  of the two strings) gives the credentials and ends the loop; \<open>None\<close> is \<open>creds == nil\<close>
  after the loop.
\<close>

fun findCreds :: "string \<Rightarrow> Secret list \<Rightarrow> RepoCreds option" where
  "findCreds repoUrl [] = None"
| "findCreds repoUrl (repoSecret # items) =
     (if repoUrl = string_of_bytes (index_bytes (secret_Data repoSecret) ''url'') then
        Some \<lparr> Url = string_of_bytes (index_bytes (secret_Data repoSecret) ''url''),
               Username = string_of_bytes (index_bytes (secret_Data repoSecret) ''username''),
               Password = string_of_bytes (index_bytes (secret_Data repoSecret) ''password'') \<rparr>
      else findCreds repoUrl items)"

section \<open>getInlineBundles\<close>

record inlineBundle =
  name :: string
  data :: bytes

text \<open>
  The loop over \<open>bundleItems\<close>, with the slice built so far: a secret that cannot be
  fetched ends the whole call with an error, a secret whose \<open>bundle-type\<close> label is not
  \<open>inline\<close> is skipped, any other is appended with its \<open>data\<close> entry.
\<close>

fun collectBundles ::
  "kube \<Rightarrow> string \<Rightarrow> inlineBundle list \<Rightarrow> string list \<Rightarrow> error + inlineBundle list" where
  "collectBundles corev1 arlonNs inlineBundles [] = Inr inlineBundles"
| "collectBundles corev1 arlonNs inlineBundles (bundleName # bundleItems) =
     (case getSecret corev1 arlonNs bundleName of
        Inl e \<Rightarrow> Inl (GetBundleSecretFailed bundleName e)
      | Inr secr \<Rightarrow>
          if index_str (secret_Labels secr) ''bundle-type'' \<noteq> ''inline''
          then collectBundles corev1 arlonNs inlineBundles bundleItems
          else collectBundles corev1 arlonNs
                 (inlineBundles @
                    [\<lparr> name = bundleName, data = index_bytes (secret_Data secr) ''data'' \<rparr>])
                 bundleItems)"

definition getInlineBundles :: "string \<Rightarrow> kube \<Rightarrow> string \<Rightarrow> error + inlineBundle list" where
  "getInlineBundles profileName corev1 arlonNs =
     (if profileName = [] then Inr []
      else
        case getConfigMap corev1 arlonNs profileName of
          Inl e \<Rightarrow> Inl (GetProfileFailed e)
        | Inr profileConfigMap \<Rightarrow>
            if index_str (cm_Labels profileConfigMap) ''arlon-type'' \<noteq> ''profile''
            then Inl ProfileLabelMissing
            else
              let bundles = index_str (cm_Data profileConfigMap) ''bundles''
              in if bundles = [] then Inl ProfileHasNoBundles
                 else collectBundles corev1 arlonNs [] (Split bundles CHR '',''))"

section \<open>ConstructRootApp\<close>

record HelmParameter =
  hp_Name :: string
  hp_Value :: string

record ResourceIgnoreDifferences =
  rid_Group :: string
  rid_Kind :: string
  rid_JSONPointers :: "string list"

record Application =
  app_Kind :: string
  app_APIVersion :: string
  app_Name :: string
  app_Namespace :: string
  app_HelmParameters :: "HelmParameter list"
  app_RepoURL :: string
  app_TargetRevision :: string
  app_Path :: string
  app_DestinationServer :: string
  app_DestinationNamespace :: string
  app_AutomatedPrune :: bool
  app_SyncOptions :: "string list"
  app_IgnoreDifferences :: "ResourceIgnoreDifferences list"

definition keys :: "string list" where
  "keys = [''region'', ''sshKeyName'', ''kubernetesVersion'', ''podCidrBlock'',
           ''nodeCount'', ''nodeType'']"

text \<open>The \<open>for _, key := range keys\<close> loop, appending to \<open>helmParams\<close>.\<close>

fun appendParams :: "(string \<rightharpoonup> string) \<Rightarrow> HelmParameter list \<Rightarrow> string list \<Rightarrow> HelmParameter list" where
  "appendParams cmData helmParams [] = helmParams"
| "appendParams cmData helmParams (key # ks) =
     (let val = index_str cmData key
      in if val \<noteq> []
         then appendParams cmData (helmParams @ [\<lparr> hp_Name = key, hp_Value = val \<rparr>]) ks
         else appendParams cmData helmParams ks)"

text \<open>
  \<open>application.ApplicationKind\<close> and \<open>application.Group\<close> are constants of the Argo CD
  library: \<open>Application\<close> and \<open>argoproj.io\<close>.
\<close>

definition ConstructRootApp ::
  "kube \<Rightarrow> string \<Rightarrow> string \<Rightarrow> string \<Rightarrow> string \<Rightarrow> string \<Rightarrow> string \<Rightarrow> string
     \<Rightarrow> error + Application" where
  "ConstructRootApp kubeClient argocdNs arlonNs clusterName repoUrl repoBranch basePath
       clusterSpecName =
     (case getConfigMap kubeClient arlonNs clusterSpecName of
        Inl e \<Rightarrow> Inl (GetClusterSpecFailed e)
      | Inr cm \<Rightarrow>
          Inr \<lparr> app_Kind = ''Application'',
                app_APIVersion = ''argoproj.io'' @ ''/v1alpha1'',
                app_Name = clusterName,
                app_Namespace = argocdNs,
                app_HelmParameters =
                  appendParams (cm_Data cm)
                    [\<lparr> hp_Name = ''clusterName'', hp_Value = clusterName \<rparr>] keys,
                app_RepoURL = repoUrl,
                app_TargetRevision = repoBranch,
                app_Path = Join [basePath, clusterName, ''mgmt''],
                app_DestinationServer = ''https://kubernetes.default.svc'',
                app_DestinationNamespace = ''default'',
                app_AutomatedPrune = True,
                app_SyncOptions = [''Prune=true''],
                app_IgnoreDifferences =
                  [\<lparr> rid_Group = ''controlplane.cluster.x-k8s.io'',
                     rid_Kind = ''AWSManagedControlPlane'',
                     rid_JSONPointers = [''/spec/version''] \<rparr>] \<rparr>)"

section \<open>The working tree and the embedded manifests\<close>

text \<open>
  The files of the working tree (\<open>wt.Filesystem\<close>), by the path given to \<open>Create\<close>, and
  the directories made by \<open>MkdirAll\<close>.
\<close>

record worktree =
  files :: "string \<rightharpoonup> string"
  dirs :: "string set"

text \<open>The state after a file at \<open>p\<close> holds \<open>c\<close>, and after a directory \<open>p\<close> exists.\<close>

definition write_file :: "worktree \<Rightarrow> string \<Rightarrow> string \<Rightarrow> worktree" where
  "write_file wt p c = wt\<lparr> files := fun_upd (files wt) p (Some c) \<rparr>"

definition make_dir :: "worktree \<Rightarrow> string \<Rightarrow> worktree" where
  "make_dir wt p = wt\<lparr> dirs := insert p (dirs wt) \<rparr>"

text \<open>One working tree laid over another: the files and directories of both, those of
  the second winning.\<close>

definition overlay :: "worktree \<Rightarrow> worktree \<Rightarrow> worktree" where
  "overlay v w = \<lparr> files = files v ++ files w, dirs = dirs v \<union> dirs w \<rparr>"

text \<open>
  Calls into the file systems can fail for reasons outside the program. \<open>faults\<close> says
  which call fails, by the path it is given, and with what message; \<open>None\<close> is success.
\<close>

record faults =
  readdir_err :: "string \<Rightarrow> string option"    \<comment> \<open>content.ReadDir\<close>
  open_err :: "string \<Rightarrow> string option"       \<comment> \<open>content.Open\<close>
  create_err :: "string \<Rightarrow> string option"     \<comment> \<open>wt.Filesystem.Create\<close>
  mkdirall_err :: "string \<Rightarrow> string option"   \<comment> \<open>wt.Filesystem.MkdirAll\<close>
  copy_err :: "string \<Rightarrow> string option"       \<comment> \<open>io.Copy into the file created at the path\<close>
  parse_err :: "string option"                \<comment> \<open>template.New("app").Parse(appTmpl)\<close>
  execute_err :: "string \<Rightarrow> string option"    \<comment> \<open>tmpl.Execute into the file created at the path\<close>

text \<open>
  An entry of the embedded file system \<open>content\<close>: a file with its name and bytes, or a
  directory with its name and entries in \<open>ReadDir\<close> order. The files themselves
  (\<open>manifests/*\<close>) are not part of the sources at hand, so the tree is a parameter.
\<close>

datatype entry = File string string | Dir string "entry list"

text \<open>
  \<open>copyManifests\<close> reads the directory \<open>root\<close> of \<open>content\<close> and walks its entries;
  \<open>items\<close> is what \<open>ReadDir(root)\<close> returns. \<open>copyItems\<close> is the \<open>for\<close> loop.
  \<open>Create\<close> truncates or creates the file and \<open>io.Copy\<close> fills it.
\<close>

fun copyManifests :: "faults \<Rightarrow> entry list \<Rightarrow> worktree \<Rightarrow> string \<Rightarrow> string \<Rightarrow> error + worktree"
  and copyItems :: "faults \<Rightarrow> entry list \<Rightarrow> worktree \<Rightarrow> string \<Rightarrow> string \<Rightarrow> error + worktree" where
  "copyManifests fl items wt root mgmtPath =
     (case readdir_err fl root of
        Some e \<Rightarrow> Inl (ReadEmbeddedDirFailed e)
      | None \<Rightarrow> copyItems fl items wt root mgmtPath)"
| "copyItems fl [] wt root mgmtPath = Inr wt"
| "copyItems fl (Dir nm sub # items) wt root mgmtPath =
     (let filePath = Join [root, nm]
      in case copyManifests fl sub wt filePath mgmtPath of
           Inl e \<Rightarrow> Inl e
         | Inr wt' \<Rightarrow> copyItems fl items wt' root mgmtPath)"
| "copyItems fl (File nm src # items) wt root mgmtPath =
     (let filePath = Join [root, nm]
      in case open_err fl filePath of
           Some e \<Rightarrow> Inl (OpenEmbeddedFailed filePath e)
         | None \<Rightarrow>
            (let components = Split filePath CHR ''/'' in
             let dstPath = Join (tl components) in
             let dstPath = Join [mgmtPath, dstPath]
             in (case create_err fl dstPath of
                   Some e \<Rightarrow> Inl (CreateDestinationFailed dstPath e)
                 | None \<Rightarrow>
                    (case copy_err fl dstPath of
                       Some e \<Rightarrow> Inl (CopyEmbeddedFileFailed e)
                     | None \<Rightarrow>
                         copyItems fl items (write_file (write_file wt dstPath []) dstPath src)
                           root mgmtPath))))"

section \<open>The application template\<close>

record AppSettings =
  ClusterName :: string
  BundleName :: string
  WorkloadPath :: string
  AppNamespace :: string
  DestinationNamespace :: string
  RepoUrl :: string

text \<open>
  The parsed form of the constant \<open>appTmpl\<close>: literal text and \<open>{{.Field}}\<close> actions, in
  order. The text starts with the line break after the opening back quote and ends with
  the one after \<open>HEAD\<close>. \<open>Execute\<close> writes the text as it is and each field's string
  unescaped, as \<open>text/template\<close> does.
\<close>

datatype field =
  FClusterName | FBundleName | FWorkloadPath | FAppNamespace | FDestinationNamespace | FRepoUrl

datatype node = Text string | Action field

definition appTmpl :: "node list" where
  "appTmpl =
     [Text ''\<newline>apiVersion: argoproj.io/v1alpha1\<newline>kind: Application\<newline>metadata:\<newline>  name: '',
      Action FClusterName, Text ''-'', Action FBundleName,
      Text ''\<newline>  namespace: '', Action FAppNamespace,
      Text ''\<newline>spec:\<newline>  syncPolicy:\<newline>    automated:\<newline>      prune: true\<newline>  destination:\<newline>    name: '',
      Action FClusterName,
      Text ''\<newline>    namespace: '', Action FDestinationNamespace,
      Text ''\<newline>  project: default\<newline>  source:\<newline>    repoURL: '', Action FRepoUrl,
      Text ''\<newline>    path: '', Action FWorkloadPath, Text ''/'', Action FBundleName,
      Text ''\<newline>    targetRevision: HEAD\<newline>'']"

fun field_value :: "AppSettings \<Rightarrow> field \<Rightarrow> string" where
  "field_value app FClusterName = ClusterName app"
| "field_value app FBundleName = BundleName app"
| "field_value app FWorkloadPath = WorkloadPath app"
| "field_value app FAppNamespace = AppNamespace app"
| "field_value app FDestinationNamespace = DestinationNamespace app"
| "field_value app FRepoUrl = RepoUrl app"

fun Execute :: "node list \<Rightarrow> AppSettings \<Rightarrow> string" where
  "Execute [] app = []"
| "Execute (Text t # ns) app = t @ Execute ns app"
| "Execute (Action f # ns) app = field_value app f @ Execute ns app"

section \<open>copyInlineBundles\<close>

text \<open>The body of the loop over \<open>bundles\<close>, for one bundle.\<close>

definition copyBundle ::
  "faults \<Rightarrow> node list \<Rightarrow> worktree \<Rightarrow> string \<Rightarrow> string \<Rightarrow> string \<Rightarrow> string \<Rightarrow> inlineBundle
     \<Rightarrow> error + worktree" where
  "copyBundle fl tmpl wt clusterName repoUrl mgmtPath workloadPath bundle =
     (let dirPath = Join [workloadPath, name bundle]
      in (case mkdirall_err fl dirPath of
            Some e \<Rightarrow> Inl (MkdirFailed e)
          | None \<Rightarrow>
     (let wt1 = make_dir wt dirPath in
      let bundleFileName = name bundle @ ''.yaml'' in
      let bundlePath = Join [dirPath, bundleFileName]
      in (case create_err fl bundlePath of
            Some e \<Rightarrow> Inl (CreateFileFailed e)
          | None \<Rightarrow>
     (let wt2 = write_file wt1 bundlePath []
      in (case data bundle of
            None \<Rightarrow> Inl (MissingPayload (name bundle))
          | Some payload \<Rightarrow>
     (case copy_err fl bundlePath of
        Some e \<Rightarrow> Inl (CopyBundleFailed (name bundle) e)
      | None \<Rightarrow>
     (let wt3 = write_file wt2 bundlePath payload in
      let appPath = Join [mgmtPath, ''templates'', bundleFileName]
      in (case create_err fl appPath of
            Some e \<Rightarrow> Inl (CreateAppFileFailed appPath e)
          | None \<Rightarrow>
     (let wt4 = write_file wt3 appPath [] in
      let app = \<lparr> ClusterName = clusterName, BundleName = name bundle,
                  WorkloadPath = workloadPath, AppNamespace = ''argocd'',
                  DestinationNamespace = ''default'', RepoUrl = repoUrl \<rparr>
      in (case execute_err fl appPath of
            Some e \<Rightarrow> Inl (RenderTemplateFailed appPath e)
          | None \<Rightarrow> Inr (write_file wt4 appPath (Execute tmpl app)))))))))))))"

fun copyBundles ::
  "faults \<Rightarrow> node list \<Rightarrow> worktree \<Rightarrow> string \<Rightarrow> string \<Rightarrow> string \<Rightarrow> string \<Rightarrow> inlineBundle list
     \<Rightarrow> error + worktree" where
  "copyBundles fl tmpl wt clusterName repoUrl mgmtPath workloadPath [] = Inr wt"
| "copyBundles fl tmpl wt clusterName repoUrl mgmtPath workloadPath (bundle # bundles) =
     (case copyBundle fl tmpl wt clusterName repoUrl mgmtPath workloadPath bundle of
        Inl e \<Rightarrow> Inl e
      | Inr wt' \<Rightarrow> copyBundles fl tmpl wt' clusterName repoUrl mgmtPath workloadPath bundles)"

definition copyInlineBundles ::
  "faults \<Rightarrow> worktree \<Rightarrow> string \<Rightarrow> string \<Rightarrow> string \<Rightarrow> string \<Rightarrow> inlineBundle list
     \<Rightarrow> error + worktree" where
  "copyInlineBundles fl wt clusterName repoUrl mgmtPath workloadPath bundles =
     (if length bundles = 0 then Inr wt
      else case parse_err fl of
             Some e \<Rightarrow> Inl (TemplateParseFailed e)
           | None \<Rightarrow> copyBundles fl appTmpl wt clusterName repoUrl mgmtPath workloadPath bundles)"

section \<open>DeployToGit\<close>

record BasicAuth =
  ba_Username :: string
  ba_Password :: string

record CloneOptions =
  co_URL :: string
  co_Auth :: BasicAuth
  co_RemoteName :: string
  co_ReferenceName :: string
  co_SingleBranch :: bool
  co_NoCheckout :: bool
  co_NoTags :: bool

record PushOptions =
  po_RemoteName :: string
  po_Auth :: BasicAuth

text \<open>
  A cloned repository as the function uses it: the working tree (\<open>None\<close> for a bare
  repository, where \<open>Worktree()\<close> fails), the tree of the commit \<open>HEAD\<close> points to, and
  the URL and reference it was cloned from.
\<close>

record Repository =
  repo_worktree :: "worktree option"
  repo_head :: "string \<rightharpoonup> string"
  repo_origin :: "string \<times> string"

definition Worktree :: "Repository \<Rightarrow> string + worktree" where
  "Worktree repo =
     (case repo_worktree repo of
        None \<Rightarrow> Inl ''worktree not available in a bare repository''
      | Some wt \<Rightarrow> Inr wt)"

text \<open>
  What \<open>DeployToGit\<close> calls outside the two source files, over a remote state \<open>'r\<close>:
  the embedded \<open>manifests\<close> directory, the faults of the file systems, \<open>os.MkdirTemp\<close>
  (the directory and the error it returns), \<open>gogit.PlainCloneContext\<close>,
  \<open>gitutils.CommitChanges\<close> (whether a commit was made, and the repository after it)
  and \<open>repo.Push\<close> (the remote after it).
\<close>

record 'r system =
  manifests :: "entry list"
  fs_faults :: faults
  MkdirTemp :: "string \<times> string option"
  PlainClone :: "'r \<Rightarrow> string \<Rightarrow> CloneOptions \<Rightarrow> string + Repository"
  CommitChanges :: "string \<Rightarrow> Repository \<Rightarrow> string + bool \<times> Repository"
  Push :: "'r \<Rightarrow> Repository \<Rightarrow> PushOptions \<Rightarrow> string + 'r"

text \<open>The calls to the git layer, in order, with what the function sees of their outcome.\<close>

datatype event =
    EvClone string CloneOptions
  | EvCommitChanges string "string + bool"
  | EvPush PushOptions

text \<open>\<open>plumbing.NewBranchReferenceName\<close> and \<open>gogit.DefaultRemoteName\<close>.\<close>

definition NewBranchReferenceName :: "string \<Rightarrow> string" where
  "NewBranchReferenceName b = ''refs/heads/'' @ b"

definition DefaultRemoteName :: string where
  "DefaultRemoteName = ''origin''"

text \<open>
  The result is the returned error (or success), the remote afterwards and the calls
  made. The error of \<open>os.MkdirTemp\<close> is assigned to \<open>err\<close> and overwritten by the clone,
  so only the directory is read. \<open>//go:embed manifests/*\<close> makes the root of \<open>content\<close>
  one directory \<open>manifests\<close>.
\<close>

definition DeployToGit ::
  "'r system \<Rightarrow> 'r \<Rightarrow> kube \<Rightarrow> string \<Rightarrow> string \<Rightarrow> string \<Rightarrow> string \<Rightarrow> string \<Rightarrow> string \<Rightarrow> string
     \<Rightarrow> (error + unit) \<times> 'r \<times> event list" where
  "DeployToGit sys remote kubeClient argocdNs arlonNs clusterName repoUrl repoBranch basePath
       profileName =
     (case listSecrets kubeClient argocdNs ''argocd.argoproj.io/secret-type=repository'' of
        Inl e \<Rightarrow> (Inl (ListSecretsFailed e), remote, [])
      | Inr secrets \<Rightarrow>
     (case findCreds repoUrl secrets of
        None \<Rightarrow> (Inl (CredentialNotFound repoUrl), remote, [])
      | Some creds \<Rightarrow>
     (case getInlineBundles profileName kubeClient arlonNs of
        Inl e \<Rightarrow> (Inl (GetInlineBundlesFailed e), remote, [])
      | Inr inlineBundles \<Rightarrow>
     (let tmpDir = fst (MkdirTemp sys) in
      let branchRef = NewBranchReferenceName repoBranch in
      let auth = \<lparr> ba_Username = Username creds, ba_Password = Password creds \<rparr> in
      let copts = \<lparr> co_URL = repoUrl, co_Auth = auth, co_RemoteName = DefaultRemoteName,
                    co_ReferenceName = branchRef, co_SingleBranch = True,
                    co_NoCheckout = False, co_NoTags = True \<rparr>
      in (case PlainClone sys remote tmpDir copts of
            Inl e \<Rightarrow> (Inl (CloneFailed e), remote, [EvClone tmpDir copts])
          | Inr repo \<Rightarrow>
     (let mgmtPath = Join [basePath, clusterName, ''mgmt''] in
      let workloadPath = Join [basePath, clusterName, ''workload'']
      in (case Worktree repo of
            Inl e \<Rightarrow> (Inl (WorktreeFailed e), remote, [EvClone tmpDir copts])
          | Inr wt \<Rightarrow>
     (case copyManifests (fs_faults sys) [Dir ''manifests'' (manifests sys)] wt ''.'' mgmtPath of
        Inl e \<Rightarrow> (Inl (CopyEmbeddedFailed e), remote, [EvClone tmpDir copts])
      | Inr wt1 \<Rightarrow>
     (case copyInlineBundles (fs_faults sys) wt1 clusterName repoUrl mgmtPath workloadPath
             inlineBundles of
        Inl e \<Rightarrow> (Inl (CopyInlineBundlesFailed e), remote, [EvClone tmpDir copts])
      | Inr wt2 \<Rightarrow>
     (case CommitChanges sys tmpDir (repo\<lparr> repo_worktree := Some wt2 \<rparr>) of
        Inl e \<Rightarrow>
          (Inl (CommitFailed e), remote, [EvClone tmpDir copts, EvCommitChanges tmpDir (Inl e)])
      | Inr (changed, repo') \<Rightarrow>
          if \<not> changed then
            (Inr (), remote, [EvClone tmpDir copts, EvCommitChanges tmpDir (Inr changed)])
          else
            (let popts = \<lparr> po_RemoteName = DefaultRemoteName, po_Auth = auth \<rparr>
             in (case Push sys remote repo' popts of
                   Inl e \<Rightarrow>
                     (Inl (PushFailed e), remote,
                      [EvClone tmpDir copts, EvCommitChanges tmpDir (Inr changed), EvPush popts])
                 | Inr remote' \<Rightarrow>
                     (Inr (), remote',
                      [EvClone tmpDir copts, EvCommitChanges tmpDir (Inr changed),
                       EvPush popts])))))))))))))"

section \<open>The git layer\<close>

text \<open>
  A remote holds, for a repository URL and a reference name, the tree of files of the
  commit the reference points to. Cloning checks that tree out; a push moves the
  reference cloned from to the local \<open>HEAD\<close>. \<open>cf\<close> and \<open>pf\<close> are transport failures
  of the clone and of the push.
\<close>

type_synonym remote = "string \<times> string \<rightharpoonup> (string \<rightharpoonup> string)"

definition git_clone :: "string option \<Rightarrow> remote \<Rightarrow> string \<Rightarrow> CloneOptions \<Rightarrow> string + Repository" where
  "git_clone cf remote dir opts =
     (case cf of
        Some e \<Rightarrow> Inl e
      | None \<Rightarrow>
         (case remote (co_URL opts, co_ReferenceName opts) of
            None \<Rightarrow> Inl ''reference not found''
          | Some tree \<Rightarrow>
              Inr \<lparr> repo_worktree = Some \<lparr> files = tree, dirs = {} \<rparr>,
                    repo_head = tree,
                    repo_origin = (co_URL opts, co_ReferenceName opts) \<rparr>))"

definition git_push :: "string option \<Rightarrow> remote \<Rightarrow> Repository \<Rightarrow> PushOptions \<Rightarrow> string + remote" where
  "git_push pf remote repo opts =
     (case pf of
        Some e \<Rightarrow> Inl e
      | None \<Rightarrow> Inr (fun_upd remote (repo_origin repo) (Some (repo_head repo))))"

text \<open>
  Modelled from the spec: \<open>gitutils.CommitChanges\<close> (package \<open>pkg/gitutils\<close> of this
  repository, not among the sources at hand). The spec's ChangeCommitter: compare the
  working tree's current state against the cloned \<open>HEAD\<close> commit; if identical, report
  no change and perform no commit; if different, stage all changes and create a single
  commit; return whether a commit was created.
\<close>

definition spec_CommitChanges :: "string \<Rightarrow> Repository \<Rightarrow> string + bool \<times> Repository" where
  "spec_CommitChanges tmpDir repo =
     (case repo_worktree repo of
        None \<Rightarrow> Inl ''worktree not available in a bare repository''
      | Some wt \<Rightarrow>
          if files wt = repo_head repo then Inr (False, repo)
          else Inr (True, repo\<lparr> repo_head := files wt \<rparr>))"

definition git_system ::
  "entry list \<Rightarrow> faults \<Rightarrow> string \<times> string option \<Rightarrow> string option \<Rightarrow> string option
     \<Rightarrow> remote system" where
  "git_system ms fl tmp cf pf =
     \<lparr> manifests = ms, fs_faults = fl, MkdirTemp = tmp, PlainClone = git_clone cf,
       CommitChanges = spec_CommitChanges, Push = git_push pf \<rparr>"

section \<open>The published layout, in the words of the specification\<close>

text \<open>
  The names the embedding of files guarantees for the entries of \<open>content\<close>, and the
  Kubernetes API for the names of its objects: a single non-empty path element that is
  neither \<open>.\<close> nor \<open>..\<close>.
\<close>

definition valid_name :: "string \<Rightarrow> bool" where
  "valid_name n = (n \<noteq> [] \<and> CHR ''/'' \<notin> set n \<and> n \<noteq> ''.'' \<and> n \<noteq> ''..'')"

fun wf_entry :: "entry \<Rightarrow> bool" where
  "wf_entry (File nm src) = valid_name nm"
| "wf_entry (Dir nm sub) = (valid_name nm \<and> list_all wf_entry sub)"

text \<open>The files below an entry: the path elements relative to its parent, and the bytes.\<close>

fun entry_files :: "entry \<Rightarrow> (string list \<times> string) list" where
  "entry_files (File nm src) = [([nm], src)]"
| "entry_files (Dir nm sub) =
     map (\<lambda>(p, src). (nm # p, src)) (concat (map entry_files sub))"

text \<open>
  The layout of the specification for cluster \<open>C\<close> and base path \<open>B\<close>, as the writes
  that produce it, in order: every base file at \<open>B/C/mgmt/\<close> followed by its relative
  path; then for each inline bundle its payload at \<open>B/C/workload/<bundle>/<bundle>.yaml\<close>
  and its stub at \<open>B/C/mgmt/templates/<bundle>.yaml\<close>.
\<close>

definition spec_base_writes :: "entry list \<Rightarrow> string \<Rightarrow> string \<Rightarrow> (string \<times> string) list" where
  "spec_base_writes ms B C =
     map (\<lambda>(p, src). (Join [Join [B, C, ''mgmt''], join_with ''/'' p], src))
       (concat (map entry_files ms))"

definition spec_stub :: "string \<Rightarrow> string \<Rightarrow> string \<Rightarrow> string \<Rightarrow> string" where
  "spec_stub B C repoUrl bundleName =
     Execute appTmpl
       \<lparr> ClusterName = C, BundleName = bundleName,
         WorkloadPath = Join [B, C, ''workload''], AppNamespace = ''argocd'',
         DestinationNamespace = ''default'', RepoUrl = repoUrl \<rparr>"

definition spec_bundle_writes ::
  "string \<Rightarrow> string \<Rightarrow> string \<Rightarrow> inlineBundle \<Rightarrow> (string \<times> string) list" where
  "spec_bundle_writes B C repoUrl b =
     [(Join [Join [Join [B, C, ''workload''], name b], name b @ ''.yaml''],
       string_of_bytes (data b)),
      (Join [Join [B, C, ''mgmt''], ''templates'', name b @ ''.yaml''],
       spec_stub B C repoUrl (name b))]"

text \<open>Writing files one after the other: a later write to a path replaces an earlier one.\<close>

definition write_all :: "(string \<rightharpoonup> string) \<Rightarrow> (string \<times> string) list \<Rightarrow> (string \<rightharpoonup> string)" where
  "write_all m ws = foldl (\<lambda>m w. fun_upd m (fst w) (Some (snd w))) m ws"

section \<open>A small installation, for concrete runs\<close>

text \<open>
  Two registered repositories; a profile \<open>p1\<close> naming the bundles \<open>c\<close>, \<open>b\<close> and \<open>a\<close>, of
  which \<open>b\<close> is not inline; a profile \<open>p2\<close> naming \<open>c\<close> and \<open>d\<close>, where the inline
  bundle \<open>d\<close> has no \<open>data\<close> entry; a cluster specification \<open>spec1\<close> with an empty node count
  and no ssh key; a chart of two base files; no faults.
\<close>

definition ex_kube :: kube where
  "ex_kube =
     \<lparr> listSecrets = (\<lambda>ns sel.
         if ns = ''argocd'' \<and> sel = ''argocd.argoproj.io/secret-type=repository''
         then Inr [\<lparr> secret_Labels = Map.empty,
                     secret_Data = [''url'' \<mapsto> Some ''https://git.example/other.git'',
                                    ''username'' \<mapsto> Some ''o'', ''password'' \<mapsto> Some ''q''] \<rparr>,
                   \<lparr> secret_Labels = Map.empty,
                     secret_Data = [''url'' \<mapsto> Some ''https://git.example/repo.git'',
                                    ''username'' \<mapsto> Some ''u'', ''password'' \<mapsto> Some ''p''] \<rparr>,
                   \<lparr> secret_Labels = Map.empty,
                     secret_Data = [''url'' \<mapsto> Some ''https://git.example/repo.git'',
                                    ''username'' \<mapsto> Some ''v'', ''password'' \<mapsto> Some ''w''] \<rparr>]
         else Inr []),
       getSecret = (\<lambda>ns n.
         if ns = ''arlon'' \<and> n = ''a''
         then Inr \<lparr> secret_Labels = [''bundle-type'' \<mapsto> ''inline''],
                    secret_Data = [''data'' \<mapsto> Some ''X''] \<rparr>
         else if ns = ''arlon'' \<and> n = ''b''
         then Inr \<lparr> secret_Labels = [''bundle-type'' \<mapsto> ''external''],
                    secret_Data = Map.empty \<rparr>
         else if ns = ''arlon'' \<and> n = ''c''
         then Inr \<lparr> secret_Labels = [''bundle-type'' \<mapsto> ''inline''],
                    secret_Data = [''data'' \<mapsto> Some ''Z''] \<rparr>
         else if ns = ''arlon'' \<and> n = ''d''
         then Inr \<lparr> secret_Labels = [''bundle-type'' \<mapsto> ''inline''],
                    secret_Data = Map.empty \<rparr>
         else Inl ''not found''),
       getConfigMap = (\<lambda>ns n.
         if ns = ''arlon'' \<and> n = ''p1''
         then Inr \<lparr> cm_Labels = [''arlon-type'' \<mapsto> ''profile''],
                    cm_Data = [''bundles'' \<mapsto> ''c,b,a''] \<rparr>
         else if ns = ''arlon'' \<and> n = ''p2''
         then Inr \<lparr> cm_Labels = [''arlon-type'' \<mapsto> ''profile''],
                    cm_Data = [''bundles'' \<mapsto> ''c,d''] \<rparr>
         else if ns = ''arlon'' \<and> n = ''spec1''
         then Inr \<lparr> cm_Labels = Map.empty,
                    cm_Data = [''region'' \<mapsto> ''us-west-2'', ''nodeCount'' \<mapsto> [],
                               ''nodeType'' \<mapsto> ''t2.medium''] \<rparr>
         else Inl ''not found'') \<rparr>"

definition no_faults :: faults where
  "no_faults =
     \<lparr> readdir_err = (\<lambda>p. None), open_err = (\<lambda>p. None), create_err = (\<lambda>p. None),
       mkdirall_err = (\<lambda>p. None), copy_err = (\<lambda>p. None), parse_err = None,
       execute_err = (\<lambda>p. None) \<rparr>"

definition ex_manifests :: "entry list" where
  "ex_manifests = [File ''Chart.yaml'' ''chart'', Dir ''templates'' [File ''a.yaml'' ''base'']]"

definition empty_worktree :: worktree where
  "empty_worktree = \<lparr> files = Map.empty, dirs = {} \<rparr>"

text \<open>A remote whose branch \<open>main\<close> holds an empty tree, and the clone options for it.\<close>

definition ex_remote :: remote where
  "ex_remote = [(''https://git.example/repo.git'', ''refs/heads/main'') \<mapsto> Map.empty]"

definition ex_copts :: CloneOptions where
  "ex_copts =
     \<lparr> co_URL = ''https://git.example/repo.git'',
       co_Auth = \<lparr> ba_Username = ''u'', ba_Password = ''p'' \<rparr>,
       co_RemoteName = ''origin'', co_ReferenceName = ''refs/heads/main'',
       co_SingleBranch = True, co_NoCheckout = False, co_NoTags = True \<rparr>"

definition ex_popts :: PushOptions where
  "ex_popts =
     \<lparr> po_RemoteName = ''origin'', po_Auth = \<lparr> ba_Username = ''u'', ba_Password = ''p'' \<rparr> \<rparr>"

text \<open>
  A chart whose template is named like no bundle, and a system that commits whatever
  working tree it is handed and whose push hands that tree to the remote: the remote
  afterwards is the working tree \<open>DeployToGit\<close> committed.
\<close>

definition ex_chart :: "entry list" where
  "ex_chart = [File ''Chart.yaml'' ''chart'', Dir ''templates'' [File ''cluster.yaml'' ''base'']]"

definition ex_repo :: Repository where
  "ex_repo =
     \<lparr> repo_worktree = Some \<lparr> files = [''README.md'' \<mapsto> ''readme''], dirs = {} \<rparr>,
       repo_head = [''README.md'' \<mapsto> ''readme''],
       repo_origin = (''https://git.example/repo.git'', ''refs/heads/main'') \<rparr>"

definition ex_observer :: "worktree option system" where
  "ex_observer =
     \<lparr> manifests = ex_chart, fs_faults = no_faults, MkdirTemp = (''/tmp/arlon-1'', None),
       PlainClone = (\<lambda>r d opts. Inr ex_repo),
       CommitChanges = (\<lambda>d repo. Inr (True, repo)),
       Push = (\<lambda>r repo opts. Inr (repo_worktree repo)) \<rparr>"

section \<open>ConstructRootApp: the Helm parameters\<close>

lemma appendParams_filter:
  "appendParams d ps ks =
     ps @ map (\<lambda>k. \<lparr> hp_Name = k, hp_Value = index_str d k \<rparr>)
            (filter (\<lambda>k. index_str d k \<noteq> []) ks)"
  by (induction ks arbitrary: ps) (simp_all add: Let_def)

lemma index_str_present:
  "index_str d k \<noteq> [] \<longleftrightarrow> d k \<notin> {None, Some []}"
  by (simp add: index_str_def split: option.splits)

lemma index_str_the:
  "d k \<notin> {None, Some []} \<Longrightarrow> index_str d k = the (d k)"
  by (cases "d k") (simp_all add: index_str_def)

text \<open>
  C3. When the cluster specification is found, \<open>ConstructRootApp\<close> succeeds and its Helm
  parameters are \<open>clusterName\<close> with the cluster name, followed by exactly those of
  region, sshKeyName, kubernetesVersion, podCidrBlock, nodeCount, nodeType whose entry
  in the specification is present and not the empty string, in that order, each with
  its value.
\<close>

theorem root_app_helm_parameters:
  assumes "getConfigMap kubeClient arlonNs clusterSpecName = Inr cm"
  shows "\<exists>app. ConstructRootApp kubeClient argocdNs arlonNs clusterName repoUrl repoBranch
                  basePath clusterSpecName = Inr app
           \<and> app_HelmParameters app =
               \<lparr> hp_Name = ''clusterName'', hp_Value = clusterName \<rparr> #
               map (\<lambda>k. \<lparr> hp_Name = k, hp_Value = the (cm_Data cm k) \<rparr>)
                 (filter (\<lambda>k. cm_Data cm k \<notin> {None, Some []})
                    [''region'', ''sshKeyName'', ''kubernetesVersion'', ''podCidrBlock'',
                     ''nodeCount'', ''nodeType''])"
proof -
  have "map (\<lambda>k. \<lparr> hp_Name = k, hp_Value = index_str (cm_Data cm) k \<rparr>)
            (filter (\<lambda>k. index_str (cm_Data cm) k \<noteq> []) keys)
        = map (\<lambda>k. \<lparr> hp_Name = k, hp_Value = the (cm_Data cm k) \<rparr>)
            (filter (\<lambda>k. cm_Data cm k \<notin> {None, Some []}) keys)"
    by (rule map_cong filter_cong | simp only: index_str_present | simp add: index_str_the)+
  then show ?thesis
    using assms by (simp add: ConstructRootApp_def appendParams_filter keys_def)
qed

theorem root_app_helm_parameters_witness:
  "\<exists>app. ConstructRootApp ex_kube ''argocd'' ''arlon'' ''c1'' ''https://git.example/repo.git''
            ''main'' ''clusters'' ''spec1'' = Inr app
     \<and> app_HelmParameters app =
        [\<lparr> hp_Name = ''clusterName'', hp_Value = ''c1'' \<rparr>,
         \<lparr> hp_Name = ''region'', hp_Value = ''us-west-2'' \<rparr>,
         \<lparr> hp_Name = ''nodeType'', hp_Value = ''t2.medium'' \<rparr>]"
  using root_app_helm_parameters [of ex_kube "''arlon''" "''spec1''"
     "\<lparr> cm_Labels = Map.empty,
        cm_Data = [''region'' \<mapsto> ''us-west-2'', ''nodeCount'' \<mapsto> [],
                   ''nodeType'' \<mapsto> ''t2.medium''] \<rparr>"
     "''argocd''" "''c1''" "''https://git.example/repo.git''" "''main''" "''clusters''"]
  by (auto simp add: ex_kube_def)

section \<open>getInlineBundles\<close>

text \<open>
  C8. With the empty profile name, \<open>getInlineBundles\<close> returns no bundle and no error,
  whatever the cluster holds.
\<close>

theorem empty_profile_no_bundles:
  "getInlineBundles [] corev1 arlonNs = Inr []"
  by (simp add: getInlineBundles_def)

lemma collectBundles_resolved:
  assumes "\<forall>n \<in> set ns. getSecret k a n = Inr (store n)"
  shows "collectBundles k a acc ns =
     Inr (acc @ map (\<lambda>n. \<lparr> name = n, data = index_bytes (secret_Data (store n)) ''data'' \<rparr>)
        (filter (\<lambda>n. index_str (secret_Labels (store n)) ''bundle-type'' = ''inline'') ns))"
  using assms by (induction ns arbitrary: acc) simp_all

text \<open>
  C7. For a profile that exists, carries the profile label and declares a non-empty
  comma-separated list of bundle names, each of which resolves to a secret
  (\<open>store n\<close> for the name \<open>n\<close>): \<open>getInlineBundles\<close> succeeds, and its result is the
  declared names in declared order, restricted to those whose secret carries the label
  \<open>bundle-type = inline\<close>, each with the \<open>data\<close> entry of its secret. A secret without
  that label is left out and is no error.
\<close>

theorem inline_bundles_in_declared_order:
  assumes "profileName \<noteq> []"
    and "getConfigMap corev1 arlonNs profileName = Inr profile"
    and "index_str (cm_Labels profile) ''arlon-type'' = ''profile''"
    and "index_str (cm_Data profile) ''bundles'' \<noteq> []"
    and "\<forall>n \<in> set (Split (index_str (cm_Data profile) ''bundles'') CHR '','').
           getSecret corev1 arlonNs n = Inr (store n)"
  shows "getInlineBundles profileName corev1 arlonNs =
     Inr (map (\<lambda>n. \<lparr> name = n, data = index_bytes (secret_Data (store n)) ''data'' \<rparr>)
            (filter (\<lambda>n. index_str (secret_Labels (store n)) ''bundle-type'' = ''inline'')
               (Split (index_str (cm_Data profile) ''bundles'') CHR '','')))"
  using assms(1-4) collectBundles_resolved [OF assms(5), of "[]"]
  by (simp add: getInlineBundles_def)

theorem inline_bundles_in_declared_order_witness:
  "Split ''c,b,a'' CHR '','' = [''c'', ''b'', ''a'']
   \<and> getInlineBundles ''p1'' ex_kube ''arlon'' =
       Inr [\<lparr> name = ''c'', data = Some ''Z'' \<rparr>, \<lparr> name = ''a'', data = Some ''X'' \<rparr>]"
  using inline_bundles_in_declared_order [of "''p1''" ex_kube "''arlon''"
     "\<lparr> cm_Labels = [''arlon-type'' \<mapsto> ''profile''], cm_Data = [''bundles'' \<mapsto> ''c,b,a''] \<rparr>"
     "\<lambda>n. projr (getSecret ex_kube ''arlon'' n)"]
  by (simp add: ex_kube_def index_str_def index_bytes_def)

section \<open>Credential lookup\<close>

lemma ex_listSecrets:
  "listSecrets ex_kube ''argocd'' ''argocd.argoproj.io/secret-type=repository'' =
     Inr [\<lparr> secret_Labels = Map.empty,
                     secret_Data = [''url'' \<mapsto> Some ''https://git.example/other.git'',
                                    ''username'' \<mapsto> Some ''o'', ''password'' \<mapsto> Some ''q''] \<rparr>,
                   \<lparr> secret_Labels = Map.empty,
                     secret_Data = [''url'' \<mapsto> Some ''https://git.example/repo.git'',
                                    ''username'' \<mapsto> Some ''u'', ''password'' \<mapsto> Some ''p''] \<rparr>,
                   \<lparr> secret_Labels = Map.empty,
                     secret_Data = [''url'' \<mapsto> Some ''https://git.example/repo.git'',
                                    ''username'' \<mapsto> Some ''v'', ''password'' \<mapsto> Some ''w''] \<rparr>]"
  by (simp add: ex_kube_def)

lemma findCreds_find:
  "findCreds repoUrl items =
     map_option
       (\<lambda>s. \<lparr> Url = string_of_bytes (index_bytes (secret_Data s) ''url''),
              Username = string_of_bytes (index_bytes (secret_Data s) ''username''),
              Password = string_of_bytes (index_bytes (secret_Data s) ''password'') \<rparr>)
       (find (\<lambda>s. string_of_bytes (index_bytes (secret_Data s) ''url'') = repoUrl) items)"
  by (induction items) auto

lemma findCreds_None:
  "findCreds repoUrl items = None \<longleftrightarrow>
     (\<forall>s \<in> set items. string_of_bytes (index_bytes (secret_Data s) ''url'') \<noteq> repoUrl)"
  by (induction items) auto

text \<open>
  C5. With \<open>items\<close> the listed repository secrets: the lookup returns the credentials of
  the first item whose \<open>url\<close> entry is the target URL, compared as strings without any
  normalisation; \<open>DeployToGit\<close> fails with the credential-not-found error exactly when
  no item's \<open>url\<close> equals the target, and then it returns before any call to the git
  layer, the remote untouched.
\<close>

theorem credential_resolution:
  assumes "listSecrets kubeClient argocdNs ''argocd.argoproj.io/secret-type=repository'' = Inr items"
  shows "findCreds repoUrl items =
           map_option
             (\<lambda>s. \<lparr> Url = string_of_bytes (index_bytes (secret_Data s) ''url''),
                    Username = string_of_bytes (index_bytes (secret_Data s) ''username''),
                    Password = string_of_bytes (index_bytes (secret_Data s) ''password'') \<rparr>)
             (find (\<lambda>s. string_of_bytes (index_bytes (secret_Data s) ''url'') = repoUrl) items)
         \<and> ((\<exists>e. fst (DeployToGit sys remote kubeClient argocdNs arlonNs clusterName repoUrl
                        repoBranch basePath profileName) = Inl (CredentialNotFound e))
              \<longleftrightarrow> (\<forall>s \<in> set items. string_of_bytes (index_bytes (secret_Data s) ''url'') \<noteq> repoUrl))
         \<and> ((\<forall>s \<in> set items. string_of_bytes (index_bytes (secret_Data s) ''url'') \<noteq> repoUrl)
              \<longrightarrow> DeployToGit sys remote kubeClient argocdNs arlonNs clusterName repoUrl
                        repoBranch basePath profileName
                    = (Inl (CredentialNotFound repoUrl), remote, []))"
proof (intro conjI)
  show "findCreds repoUrl items =
           map_option
             (\<lambda>s. \<lparr> Url = string_of_bytes (index_bytes (secret_Data s) ''url''),
                    Username = string_of_bytes (index_bytes (secret_Data s) ''username''),
                    Password = string_of_bytes (index_bytes (secret_Data s) ''password'') \<rparr>)
             (find (\<lambda>s. string_of_bytes (index_bytes (secret_Data s) ''url'') = repoUrl) items)"
    by (rule findCreds_find)
next
  show "(\<exists>e. fst (DeployToGit sys remote kubeClient argocdNs arlonNs clusterName repoUrl
                        repoBranch basePath profileName) = Inl (CredentialNotFound e))
              \<longleftrightarrow> (\<forall>s \<in> set items. string_of_bytes (index_bytes (secret_Data s) ''url'') \<noteq> repoUrl)"
    unfolding findCreds_None [symmetric]
    using assms
    by (simp add: DeployToGit_def Let_def split: option.splits sum.splits prod.splits)
next
  show "(\<forall>s \<in> set items. string_of_bytes (index_bytes (secret_Data s) ''url'') \<noteq> repoUrl)
              \<longrightarrow> DeployToGit sys remote kubeClient argocdNs arlonNs clusterName repoUrl
                        repoBranch basePath profileName
                    = (Inl (CredentialNotFound repoUrl), remote, [])"
    unfolding findCreds_None [symmetric]
    using assms by (simp add: DeployToGit_def)
qed

theorem credential_resolution_witness:
  "findCreds ''https://git.example/repo.git''
      (projr (listSecrets ex_kube ''argocd'' ''argocd.argoproj.io/secret-type=repository''))
     = Some \<lparr> Url = ''https://git.example/repo.git'', Username = ''u'', Password = ''p'' \<rparr>
   \<and> DeployToGit (git_system ex_manifests no_faults (''/tmp/arlon-1'', None) None None)
        ex_remote ex_kube ''argocd'' ''arlon'' ''c1'' ''https://git.example/repo.git/'' ''main''
        ''clusters'' ''p1''
     = (Inl (CredentialNotFound ''https://git.example/repo.git/''), ex_remote, [])"
  using credential_resolution [OF ex_listSecrets,
      of "''https://git.example/repo.git''"]
    credential_resolution [OF ex_listSecrets,
      of "''https://git.example/repo.git/''"
         "git_system ex_manifests no_faults (''/tmp/arlon-1'', None) None None"
         ex_remote "''arlon''" "''c1''" "''main''" "''clusters''" "''p1''"]
  by (simp add: ex_listSecrets string_of_bytes_def index_bytes_def)

section \<open>Concrete paths and runs of the small installation\<close>

lemma ex_paths:
  "Join [''.'', ''manifests''] = ''manifests''"
  "Join [''manifests'', ''Chart.yaml''] = ''manifests/Chart.yaml''"
  "Join [''manifests'', ''templates''] = ''manifests/templates''"
  "Join [''manifests/templates'', ''a.yaml''] = ''manifests/templates/a.yaml''"
  "Join [''Chart.yaml''] = ''Chart.yaml''"
  "Join [''templates'', ''a.yaml''] = ''templates/a.yaml''"
  "Join [''clusters/c1/mgmt'', ''Chart.yaml''] = ''clusters/c1/mgmt/Chart.yaml''"
  "Join [''clusters/c1/mgmt'', ''templates/a.yaml''] = ''clusters/c1/mgmt/templates/a.yaml''"
  "Join [''clusters'', ''c1'', ''mgmt''] = ''clusters/c1/mgmt''"
  "Join [''clusters'', ''c1'', ''workload''] = ''clusters/c1/workload''"
  "Join [''clusters/c1/workload'', ''a''] = ''clusters/c1/workload/a''"
  "Join [''clusters/c1/workload/a'', ''a.yaml''] = ''clusters/c1/workload/a/a.yaml''"
  "Join [''clusters/c1/mgmt'', ''templates'', ''a.yaml''] = ''clusters/c1/mgmt/templates/a.yaml''"
  "Join [''clusters/c1/workload'', ''c''] = ''clusters/c1/workload/c''"
  "Join [''clusters/c1/workload/c'', ''c.yaml''] = ''clusters/c1/workload/c/c.yaml''"
  "Join [''clusters/c1/mgmt'', ''templates'', ''c.yaml''] = ''clusters/c1/mgmt/templates/c.yaml''"
  by (simp_all add: Join_def Clean_def clean_elem_def)

lemma ex_split:
  "Split ''manifests/Chart.yaml'' CHR ''/'' = [''manifests'', ''Chart.yaml'']"
  "Split ''manifests/templates/a.yaml'' CHR ''/'' = [''manifests'', ''templates'', ''a.yaml'']"
  by simp_all

lemma run_changed:
  "DeployToGit (git_system ex_manifests no_faults (''/tmp/arlon-1'', None) None None)
     ex_remote ex_kube ''argocd'' ''arlon'' ''c1'' ''https://git.example/repo.git'' ''main''
     ''clusters'' []
   = (Inr (),
      ex_remote((''https://git.example/repo.git'', ''refs/heads/main'') \<mapsto>
         [''clusters/c1/mgmt/Chart.yaml'' \<mapsto> ''chart'',
          ''clusters/c1/mgmt/templates/a.yaml'' \<mapsto> ''base'']),
      [EvClone ''/tmp/arlon-1'' ex_copts, EvCommitChanges ''/tmp/arlon-1'' (Inr True),
       EvPush ex_popts])"
  by (simp add: DeployToGit_def ex_listSecrets getInlineBundles_def git_system_def
        git_clone_def git_push_def spec_CommitChanges_def Worktree_def copyInlineBundles_def
        string_of_bytes_def index_bytes_def NewBranchReferenceName_def
        DefaultRemoteName_def ex_copts_def ex_popts_def ex_remote_def ex_paths ex_split Let_def
        no_faults_def ex_manifests_def write_file_def)

lemma run_unchanged:
  "DeployToGit (git_system [] no_faults (''/tmp/arlon-1'', None) None None)
     ex_remote ex_kube ''argocd'' ''arlon'' ''c1'' ''https://git.example/repo.git'' ''main''
     ''clusters'' []
   = (Inr (), ex_remote,
      [EvClone ''/tmp/arlon-1'' ex_copts, EvCommitChanges ''/tmp/arlon-1'' (Inr False)])"
  by (simp add: DeployToGit_def ex_listSecrets getInlineBundles_def git_system_def
        git_clone_def git_push_def spec_CommitChanges_def Worktree_def copyInlineBundles_def
        string_of_bytes_def index_bytes_def NewBranchReferenceName_def
        DefaultRemoteName_def ex_copts_def ex_popts_def ex_remote_def ex_paths ex_split Let_def
        no_faults_def write_file_def)

lemma ex_paths2:
  "Join [''clusters/c1/workload'', ''d''] = ''clusters/c1/workload/d''"
  "Join [''clusters/c1/workload/d'', ''d.yaml''] = ''clusters/c1/workload/d/d.yaml''"
  "Join [''clusters/c1/mgmt'', ''templates'', ''d.yaml''] = ''clusters/c1/mgmt/templates/d.yaml''"
  by (simp_all add: Join_def Clean_def clean_elem_def)

lemma ex_bundles_p2:
  "getInlineBundles ''p2'' ex_kube ''arlon'' =
     Inr [\<lparr> name = ''c'', data = Some ''Z'' \<rparr>, \<lparr> name = ''d'', data = None \<rparr>]"
  by (simp add: getInlineBundles_def ex_kube_def index_str_def index_bytes_def)

section \<open>DeployToGit: commit and push\<close>

text \<open>
  C6. In every run of \<open>DeployToGit\<close>: if \<open>CommitChanges\<close> reported no change, the run
  returns success, makes no push and leaves the remote as it was; and a push is made
  only after \<open>CommitChanges\<close> reported a change.
\<close>

theorem no_change_no_push:
  assumes "DeployToGit sys remote kubeClient argocdNs arlonNs clusterName repoUrl repoBranch
             basePath profileName = (res, remote', trace)"
  shows "(EvCommitChanges d (Inr False) \<in> set trace \<longrightarrow>
            res = Inr () \<and> remote' = remote \<and> (\<forall>po. EvPush po \<notin> set trace))
       \<and> (EvPush po \<in> set trace \<longrightarrow> (\<exists>d'. EvCommitChanges d' (Inr True) \<in> set trace))"
  using assms
  by (auto simp add: DeployToGit_def Let_def split: option.splits sum.splits prod.splits if_splits)

theorem no_change_no_push_witness:
  "DeployToGit (git_system [] no_faults (''/tmp/arlon-1'', None) None None)
     ex_remote ex_kube ''argocd'' ''arlon'' ''c1'' ''https://git.example/repo.git'' ''main''
     ''clusters'' []
   = (Inr (), ex_remote,
      [EvClone ''/tmp/arlon-1'' ex_copts, EvCommitChanges ''/tmp/arlon-1'' (Inr False)])
   \<and> EvPush ex_popts \<notin> set [EvClone ''/tmp/arlon-1'' ex_copts,
                               EvCommitChanges ''/tmp/arlon-1'' (Inr False)]
   \<and> EvPush ex_popts \<in> set (snd (snd
        (DeployToGit (git_system ex_manifests no_faults (''/tmp/arlon-1'', None) None None)
           ex_remote ex_kube ''argocd'' ''arlon'' ''c1'' ''https://git.example/repo.git''
           ''main'' ''clusters'' [])))
   \<and> EvCommitChanges ''/tmp/arlon-1'' (Inr True) \<in> set (snd (snd
        (DeployToGit (git_system ex_manifests no_faults (''/tmp/arlon-1'', None) None None)
           ex_remote ex_kube ''argocd'' ''arlon'' ''c1'' ''https://git.example/repo.git''
           ''main'' ''clusters'' [])))"
  using no_change_no_push [OF run_unchanged, of "''/tmp/arlon-1''" ex_popts]
    no_change_no_push [OF run_changed, of "''/tmp/arlon-1''" ex_popts]
  by (simp add: run_unchanged run_changed)

text \<open>
  C10. The error of \<open>os.MkdirTemp\<close> has no influence on \<open>DeployToGit\<close>: a run in which
  it failed is the run in which it succeeded with the same directory; and once the
  credentials and the bundles are resolved, the clone into that directory (the empty
  path, when \<open>MkdirTemp\<close> failed) is attempted.
\<close>

theorem mkdirtemp_error_ignored:
  "DeployToGit (sys\<lparr> MkdirTemp := (dir, Some e) \<rparr>) remote kubeClient argocdNs arlonNs
           clusterName repoUrl repoBranch basePath profileName
         = DeployToGit (sys\<lparr> MkdirTemp := (dir, None) \<rparr>) remote kubeClient argocdNs arlonNs
           clusterName repoUrl repoBranch basePath profileName
       \<and> (listSecrets kubeClient argocdNs ''argocd.argoproj.io/secret-type=repository''
             = Inr items
          \<and> findCreds repoUrl items = Some creds
          \<and> getInlineBundles profileName kubeClient arlonNs = Inr bundles
          \<longrightarrow> (\<exists>copts rest.
            snd (snd (DeployToGit (sys\<lparr> MkdirTemp := (dir, Some e) \<rparr>) remote kubeClient
                        argocdNs arlonNs clusterName repoUrl repoBranch basePath profileName))
            = EvClone dir copts # rest))"
proof (intro conjI impI)
  show "DeployToGit (sys\<lparr> MkdirTemp := (dir, Some e) \<rparr>) remote kubeClient argocdNs arlonNs
           clusterName repoUrl repoBranch basePath profileName
         = DeployToGit (sys\<lparr> MkdirTemp := (dir, None) \<rparr>) remote kubeClient argocdNs arlonNs
           clusterName repoUrl repoBranch basePath profileName"
    by (simp add: DeployToGit_def Let_def
          cong: sum.case_cong option.case_cong prod.case_cong if_cong)
next
  assume "listSecrets kubeClient argocdNs ''argocd.argoproj.io/secret-type=repository''
             = Inr items
          \<and> findCreds repoUrl items = Some creds
          \<and> getInlineBundles profileName kubeClient arlonNs = Inr bundles"
  then show "\<exists>copts rest.
            snd (snd (DeployToGit (sys\<lparr> MkdirTemp := (dir, Some e) \<rparr>) remote kubeClient
                        argocdNs arlonNs clusterName repoUrl repoBranch basePath profileName))
            = EvClone dir copts # rest"
    by (auto simp add: DeployToGit_def Let_def
          split: option.splits sum.splits prod.splits if_splits)
qed

theorem mkdirtemp_error_ignored_witness:
  "DeployToGit (git_system ex_manifests no_faults ([], Some ''no space left on device'')
                  (Some ''cannot create directory'') None)
     ex_remote ex_kube ''argocd'' ''arlon'' ''c1'' ''https://git.example/repo.git'' ''main''
     ''clusters'' []
   = (Inl (CloneFailed ''cannot create directory''), ex_remote,
      [EvClone [] ex_copts])"
  using mkdirtemp_error_ignored [where sys =
      "git_system ex_manifests no_faults ([], Some ''no space left on device'')
                  (Some ''cannot create directory'') None"
      and dir = "[]" and e = "''no space left on device''" and remote = ex_remote
      and kubeClient = ex_kube and argocdNs = "''argocd''" and arlonNs = "''arlon''"
      and clusterName = "''c1''" and repoUrl = "''https://git.example/repo.git''"
      and repoBranch = "''main''" and basePath = "''clusters''" and profileName = "[]"]
  by (simp add: DeployToGit_def ex_listSecrets getInlineBundles_def git_system_def
        git_clone_def string_of_bytes_def index_bytes_def NewBranchReferenceName_def
        DefaultRemoteName_def ex_copts_def)

section \<open>The reconciliation stub\<close>

lemma Execute_appTmpl:
  "Execute appTmpl app =
     ''\<newline>apiVersion: argoproj.io/v1alpha1\<newline>kind: Application\<newline>metadata:\<newline>  name: ''
     @ ClusterName app @ ''-'' @ BundleName app
     @ ''\<newline>  namespace: '' @ AppNamespace app
     @ ''\<newline>spec:\<newline>  syncPolicy:\<newline>    automated:\<newline>      prune: true\<newline>  destination:\<newline>    name: ''
     @ ClusterName app
     @ ''\<newline>    namespace: '' @ DestinationNamespace app
     @ ''\<newline>  project: default\<newline>  source:\<newline>    repoURL: '' @ RepoUrl app
     @ ''\<newline>    path: '' @ WorkloadPath app @ ''/'' @ BundleName app
     @ ''\<newline>    targetRevision: HEAD\<newline>''"
  by (simp add: appTmpl_def)

text \<open>
  The loop body alone: whenever it succeeds for a bundle, the file at
  \<open>mgmtPath/templates/<bundle>.yaml\<close> holds the rendered template.
\<close>

lemma copyBundle_stub:
  assumes "copyBundle fl appTmpl wt clusterName repoUrl mgmtPath workloadPath bundle = Inr wt'"
  shows "files wt' (Join [mgmtPath, ''templates'', name bundle @ ''.yaml'']) =
     Some (''\<newline>apiVersion: argoproj.io/v1alpha1\<newline>kind: Application\<newline>metadata:\<newline>  name: ''
       @ clusterName @ ''-'' @ name bundle
       @ ''\<newline>  namespace: argocd''
       @ ''\<newline>spec:\<newline>  syncPolicy:\<newline>    automated:\<newline>      prune: true\<newline>  destination:\<newline>    name: ''
       @ clusterName
       @ ''\<newline>    namespace: default''
       @ ''\<newline>  project: default\<newline>  source:\<newline>    repoURL: '' @ repoUrl
       @ ''\<newline>    path: '' @ workloadPath @ ''/'' @ name bundle
       @ ''\<newline>    targetRevision: HEAD\<newline>'')"
  using assms
  by (auto simp add: copyBundle_def Let_def write_file_def Execute_appTmpl
        split: option.splits)


section \<open>Bundles without payload\<close>

lemma copyBundle_nil:
  "data b = None \<Longrightarrow> \<exists>e. copyBundle fl tmpl wt cn url mgmt wl b = Inl e"
  by (simp add: copyBundle_def Let_def split: option.splits)

lemma copyBundles_nil:
  "b \<in> set bundles \<Longrightarrow> data b = None \<Longrightarrow>
     \<exists>e. copyBundles fl tmpl wt cn url mgmt wl bundles = Inl e"
proof (induction bundles arbitrary: wt)
  case Nil
  then show ?case by simp
next
  case (Cons x xs)
  show ?case
  proof (cases "copyBundle fl tmpl wt cn url mgmt wl x")
    case (Inl e)
    then show ?thesis by simp
  next
    case (Inr wt1)
    with copyBundle_nil [of x fl tmpl wt cn url mgmt wl] have "data x \<noteq> None" by auto
    with Cons.prems have "b \<in> set xs" by auto
    from Cons.IH [OF this Cons.prems(2), of wt1] Inr show ?thesis by simp
  qed
qed

lemma copyInlineBundles_nil:
  "b \<in> set bundles \<Longrightarrow> data b = None \<Longrightarrow>
     \<exists>e. copyInlineBundles fl wt cn url mgmt wl bundles = Inl e"
  using copyBundles_nil [of b bundles fl appTmpl wt cn url mgmt wl]
  by (auto simp add: copyInlineBundles_def split: option.splits)

lemma copyBundles_append:
  "copyBundles fl tmpl wt cn url mgmt wl (xs @ ys) =
     (case copyBundles fl tmpl wt cn url mgmt wl xs of
        Inl e \<Rightarrow> Inl e
      | Inr w \<Rightarrow> copyBundles fl tmpl w cn url mgmt wl ys)"
  by (induction xs arbitrary: wt) (simp_all split: sum.splits)

lemma copyBundle_nil_exact:
  "data b = None \<Longrightarrow> mkdirall_err fl (Join [wl, name b]) = None \<Longrightarrow>
   create_err fl (Join [Join [wl, name b], name b @ ''.yaml'']) = None \<Longrightarrow>
   copyBundle fl tmpl wt cn url mgmt wl b = Inl (MissingPayload (name b))"
  by (simp add: copyBundle_def Let_def)

lemma copyInlineBundles_first_nil:
  assumes "data b = None" and "parse_err fl = None"
    and "copyInlineBundles fl wt cn url mgmt wl pre = Inr wt'"
    and "mkdirall_err fl (Join [wl, name b]) = None"
    and "create_err fl (Join [Join [wl, name b], name b @ ''.yaml'']) = None"
  shows "copyInlineBundles fl wt cn url mgmt wl (pre @ b # post) = Inl (MissingPayload (name b))"
proof -
  have "copyBundles fl appTmpl wt cn url mgmt wl pre = Inr wt'"
    using assms(2,3) by (cases pre) (simp_all add: copyInlineBundles_def)
  then show ?thesis
    using assms(1,2,4,5)
    by (simp add: copyInlineBundles_def copyBundles_append copyBundle_nil_exact)
qed

lemma copyInlineBundles_empty_payload:
  assumes "data z = Some []" and "parse_err fl = None"
    and "mkdirall_err fl (Join [wl, name z]) = None"
    and "create_err fl (Join [Join [wl, name z], name z @ ''.yaml'']) = None"
    and "copy_err fl (Join [Join [wl, name z], name z @ ''.yaml'']) = None"
    and "create_err fl (Join [mgmt, ''templates'', name z @ ''.yaml'']) = None"
    and "execute_err fl (Join [mgmt, ''templates'', name z @ ''.yaml'']) = None"
    and "Join [mgmt, ''templates'', name z @ ''.yaml'']
           \<noteq> Join [Join [wl, name z], name z @ ''.yaml'']"
  shows "\<exists>wt'. copyInlineBundles fl wt cn url mgmt wl [z] = Inr wt'
           \<and> files wt' (Join [Join [wl, name z], name z @ ''.yaml'']) = Some []"
  using assms
  by (simp add: copyInlineBundles_def copyBundle_def Let_def write_file_def make_dir_def)

text \<open>
  C4, as amended. When an inline bundle \<open>b\<close> of the list has no payload (its \<open>data\<close> is
  the nil slice): \<open>copyInlineBundles\<close> fails, whatever else happens; \<open>DeployToGit\<close> then
  returns an error after at most the clone, with no commit, no push and the remote as it
  was; and the error is the missing-payload error of \<open>b\<close> whenever the template parses,
  the bundles before \<open>b\<close> were copied, and \<open>MkdirAll\<close> and \<open>Create\<close> for the payload file
  of \<open>b\<close> succeed, whatever the later calls would do. A payload that is present with
  length zero is no error: when no call for the bundle fails, it is copied and its
  payload file is written empty (the stub path being another path).
\<close>

theorem missing_payload_fails:
  assumes "b \<in> set bundles" and "data b = None"
  shows "(\<exists>e. copyInlineBundles fl wt clusterName repoUrl mgmtPath workloadPath bundles = Inl e)
       \<and> (getInlineBundles profileName kubeClient arlonNs = Inr bundles \<longrightarrow>
            (\<exists>e. fst (DeployToGit sys remote kubeClient argocdNs arlonNs clusterName repoUrl
                         repoBranch basePath profileName) = Inl e)
            \<and> fst (snd (DeployToGit sys remote kubeClient argocdNs arlonNs clusterName repoUrl
                         repoBranch basePath profileName)) = remote
            \<and> (\<forall>ev \<in> set (snd (snd (DeployToGit sys remote kubeClient argocdNs arlonNs
                                        clusterName repoUrl repoBranch basePath profileName))).
                  \<exists>d copts. ev = EvClone d copts))
       \<and> (\<forall>pre post wt'.
             bundles = pre @ b # post
             \<and> parse_err fl = None
             \<and> copyInlineBundles fl wt clusterName repoUrl mgmtPath workloadPath pre = Inr wt'
             \<and> mkdirall_err fl (Join [workloadPath, name b]) = None
             \<and> create_err fl (Join [Join [workloadPath, name b], name b @ ''.yaml'']) = None
             \<longrightarrow> copyInlineBundles fl wt clusterName repoUrl mgmtPath workloadPath bundles
                   = Inl (MissingPayload (name b)))
       \<and> (\<forall>z :: inlineBundle. data z = Some []
             \<and> parse_err fl = None
             \<and> mkdirall_err fl (Join [workloadPath, name z]) = None
             \<and> create_err fl (Join [Join [workloadPath, name z], name z @ ''.yaml'']) = None
             \<and> copy_err fl (Join [Join [workloadPath, name z], name z @ ''.yaml'']) = None
             \<and> create_err fl (Join [mgmtPath, ''templates'', name z @ ''.yaml'']) = None
             \<and> execute_err fl (Join [mgmtPath, ''templates'', name z @ ''.yaml'']) = None
             \<and> Join [mgmtPath, ''templates'', name z @ ''.yaml'']
                 \<noteq> Join [Join [workloadPath, name z], name z @ ''.yaml'']
             \<longrightarrow> (\<exists>wt'. copyInlineBundles fl wt clusterName repoUrl mgmtPath workloadPath [z]
                          = Inr wt'
                      \<and> files wt' (Join [Join [workloadPath, name z], name z @ ''.yaml''])
                          = Some []))"
proof (intro conjI impI allI)
  show "\<exists>e. copyInlineBundles fl wt clusterName repoUrl mgmtPath workloadPath bundles = Inl e"
    using assms by (rule copyInlineBundles_nil)
next
  fix pre post wt'
  assume "bundles = pre @ b # post
             \<and> parse_err fl = None
             \<and> copyInlineBundles fl wt clusterName repoUrl mgmtPath workloadPath pre = Inr wt'
             \<and> mkdirall_err fl (Join [workloadPath, name b]) = None
             \<and> create_err fl (Join [Join [workloadPath, name b], name b @ ''.yaml'']) = None"
  then show "copyInlineBundles fl wt clusterName repoUrl mgmtPath workloadPath bundles
              = Inl (MissingPayload (name b))"
    using copyInlineBundles_first_nil [OF assms(2), of fl wt clusterName repoUrl mgmtPath
        workloadPath pre wt' post]
    by blast
next
  fix z :: inlineBundle
  assume "data z = Some []
             \<and> parse_err fl = None
             \<and> mkdirall_err fl (Join [workloadPath, name z]) = None
             \<and> create_err fl (Join [Join [workloadPath, name z], name z @ ''.yaml'']) = None
             \<and> copy_err fl (Join [Join [workloadPath, name z], name z @ ''.yaml'']) = None
             \<and> create_err fl (Join [mgmtPath, ''templates'', name z @ ''.yaml'']) = None
             \<and> execute_err fl (Join [mgmtPath, ''templates'', name z @ ''.yaml'']) = None
             \<and> Join [mgmtPath, ''templates'', name z @ ''.yaml'']
                 \<noteq> Join [Join [workloadPath, name z], name z @ ''.yaml'']"
  then show "\<exists>wt'. copyInlineBundles fl wt clusterName repoUrl mgmtPath workloadPath [z]
                          = Inr wt'
                      \<and> files wt' (Join [Join [workloadPath, name z], name z @ ''.yaml''])
                          = Some []"
    using copyInlineBundles_empty_payload [of z fl workloadPath mgmtPath wt clusterName repoUrl]
    by blast
next
  assume gb: "getInlineBundles profileName kubeClient arlonNs = Inr bundles"
  have nil: "copyInlineBundles fl wt cn url m w bundles \<noteq> Inr x" for fl wt cn url m w x
    using copyInlineBundles_nil [OF assms, of fl wt cn url m w] by auto
  show "\<exists>e. fst (DeployToGit sys remote kubeClient argocdNs arlonNs clusterName repoUrl
                         repoBranch basePath profileName) = Inl e"
    using gb
    by (auto simp add: DeployToGit_def Let_def nil split: option.splits sum.splits)
  show "fst (snd (DeployToGit sys remote kubeClient argocdNs arlonNs clusterName repoUrl
                         repoBranch basePath profileName)) = remote"
    using gb
    by (auto simp add: DeployToGit_def Let_def nil split: option.splits sum.splits)
  show "\<forall>ev \<in> set (snd (snd (DeployToGit sys remote kubeClient argocdNs arlonNs
                                        clusterName repoUrl repoBranch basePath profileName))).
                  \<exists>d copts. ev = EvClone d copts"
    using gb
    by (auto simp add: DeployToGit_def Let_def nil split: option.splits sum.splits)
qed

lemma no_faults_simps:
  "readdir_err no_faults p = None" "open_err no_faults p = None"
  "create_err no_faults p = None" "mkdirall_err no_faults p = None"
  "copy_err no_faults p = None" "parse_err no_faults = None"
  "execute_err no_faults p = None"
  by (simp_all add: no_faults_def)

lemma ex_copy_c:
  "copyInlineBundles no_faults empty_worktree ''c1'' ''https://git.example/repo.git''
      ''clusters/c1/mgmt'' ''clusters/c1/workload'' [\<lparr> name = ''c'', data = Some ''Z'' \<rparr>]
     = Inr \<lparr> files = [''clusters/c1/workload/c/c.yaml'' \<mapsto> ''Z'',
                       ''clusters/c1/mgmt/templates/c.yaml'' \<mapsto>
                          spec_stub ''clusters'' ''c1'' ''https://git.example/repo.git'' ''c''],
              dirs = {''clusters/c1/workload/c''} \<rparr>"
  by (simp add: copyInlineBundles_def copyBundle_def Let_def ex_paths no_faults_def
        write_file_def make_dir_def empty_worktree_def spec_stub_def)

theorem missing_payload_fails_witness:
  "copyInlineBundles no_faults empty_worktree ''c1'' ''https://git.example/repo.git''
      ''clusters/c1/mgmt'' ''clusters/c1/workload''
      [\<lparr> name = ''c'', data = Some ''Z'' \<rparr>, \<lparr> name = ''d'', data = None \<rparr>]
     = Inl (MissingPayload ''d'')
   \<and> DeployToGit (git_system ex_manifests no_faults (''/tmp/arlon-1'', None) None None)
       ex_remote ex_kube ''argocd'' ''arlon'' ''c1'' ''https://git.example/repo.git'' ''main''
       ''clusters'' ''p2''
     = (Inl (CopyInlineBundlesFailed (MissingPayload ''d'')), ex_remote,
        [EvClone ''/tmp/arlon-1'' ex_copts])
   \<and> (\<exists>wt'. copyInlineBundles no_faults empty_worktree ''c1'' ''https://git.example/repo.git''
               ''clusters/c1/mgmt'' ''clusters/c1/workload'' [\<lparr> name = ''a'', data = Some [] \<rparr>]
             = Inr wt'
           \<and> files wt' ''clusters/c1/workload/a/a.yaml'' = Some [])"
proof -
  have mem: "\<lparr> name = ''d'', data = None \<rparr>
      \<in> set [\<lparr> name = ''c'', data = Some ''Z'' \<rparr>, \<lparr> name = ''d'', data = None \<rparr>]"
    by simp
  have nil: "data \<lparr> name = ''d'', data = None \<rparr> = None"
    by simp
  note inst = missing_payload_fails [where b = "\<lparr> name = ''d'', data = None \<rparr>"
      and bundles = "[\<lparr> name = ''c'', data = Some ''Z'' \<rparr>, \<lparr> name = ''d'', data = None \<rparr>]"
      and fl = no_faults
      and wt = empty_worktree and clusterName = "''c1''"
      and repoUrl = "''https://git.example/repo.git''"
      and mgmtPath = "''clusters/c1/mgmt''" and workloadPath = "''clusters/c1/workload''"
      and profileName = "''p2''" and kubeClient = ex_kube and arlonNs = "''arlon''"
      and sys = "git_system ex_manifests no_faults (''/tmp/arlon-1'', None) None None"
      and remote = ex_remote and argocdNs = "''argocd''" and repoBranch = "''main''"
      and basePath = "''clusters''", OF mem nil]
  have first: "copyInlineBundles no_faults empty_worktree ''c1'' ''https://git.example/repo.git''
      ''clusters/c1/mgmt'' ''clusters/c1/workload''
      [\<lparr> name = ''c'', data = Some ''Z'' \<rparr>, \<lparr> name = ''d'', data = None \<rparr>]
     = Inl (MissingPayload ''d'')"
    using inst [THEN conjunct2, THEN conjunct2, THEN conjunct1, rule_format,
        of "[\<lparr> name = ''c'', data = Some ''Z'' \<rparr>]" "[]"
           "\<lparr> files = [''clusters/c1/workload/c/c.yaml'' \<mapsto> ''Z'',
                       ''clusters/c1/mgmt/templates/c.yaml'' \<mapsto>
                          spec_stub ''clusters'' ''c1'' ''https://git.example/repo.git'' ''c''],
              dirs = {''clusters/c1/workload/c''} \<rparr>"]
    by (simp add: ex_copy_c ex_paths2 no_faults_simps)
  have run: "DeployToGit (git_system ex_manifests no_faults (''/tmp/arlon-1'', None) None None)
       ex_remote ex_kube ''argocd'' ''arlon'' ''c1'' ''https://git.example/repo.git'' ''main''
       ''clusters'' ''p2''
     = (Inl (CopyInlineBundlesFailed (MissingPayload ''d'')), ex_remote,
        [EvClone ''/tmp/arlon-1'' ex_copts])"
    by (simp add: DeployToGit_def ex_listSecrets ex_bundles_p2 git_system_def
        git_clone_def Worktree_def first [unfolded empty_worktree_def]
        string_of_bytes_def index_bytes_def NewBranchReferenceName_def
        DefaultRemoteName_def ex_copts_def ex_remote_def ex_paths ex_split Let_def
        no_faults_def ex_manifests_def write_file_def copyInlineBundles_def copyBundle_def
        make_dir_def ex_paths2 appTmpl_def)
  have empty: "\<exists>wt'. copyInlineBundles no_faults empty_worktree ''c1''
               ''https://git.example/repo.git''
               ''clusters/c1/mgmt'' ''clusters/c1/workload'' [\<lparr> name = ''a'', data = Some [] \<rparr>]
             = Inr wt'
           \<and> files wt' ''clusters/c1/workload/a/a.yaml'' = Some []"
    using inst [THEN conjunct2, THEN conjunct2, THEN conjunct2, rule_format,
        of "\<lparr> name = ''a'', data = Some [] \<rparr>"]
    by (simp add: ex_paths no_faults_simps)
  show ?thesis using first run empty by blast
qed

text \<open>
  The claim as stated, for an empty payload, fails: a bundle whose \<open>data\<close> entry is
  present with length zero is no error, and the build leaves the empty file
  \<open>clusters/c1/workload/a/a.yaml\<close>.
\<close>

theorem empty_payload_written_counterexample:
  "copyInlineBundles no_faults empty_worktree ''c1'' ''https://git.example/repo.git''
      ''clusters/c1/mgmt'' ''clusters/c1/workload'' [\<lparr> name = ''a'', data = Some [] \<rparr>]
     = Inr \<lparr> files = [''clusters/c1/workload/a/a.yaml'' \<mapsto> [],
                       ''clusters/c1/mgmt/templates/a.yaml'' \<mapsto>
                          Execute appTmpl
                            \<lparr> ClusterName = ''c1'', BundleName = ''a'',
                              WorkloadPath = ''clusters/c1/workload'', AppNamespace = ''argocd'',
                              DestinationNamespace = ''default'',
                              RepoUrl = ''https://git.example/repo.git'' \<rparr>],
              dirs = {''clusters/c1/workload/a''} \<rparr>"
  by (simp add: copyInlineBundles_def copyBundle_def Let_def ex_paths no_faults_def
        write_file_def make_dir_def empty_worktree_def)

section \<open>Paths of valid names\<close>

lemma Split_no_sep: "sep \<notin> set s \<Longrightarrow> Split s sep = [s]"
  by (induction s) auto

lemma Split_append_sep:
  "sep \<notin> set a \<Longrightarrow> Split (a @ sep # b) sep = a # Split b sep"
  by (induction a) auto

lemma join_with_Cons:
  "ns \<noteq> [] \<Longrightarrow> join_with sep (n # ns) = n @ sep @ join_with sep ns"
  by (cases ns) auto

lemma Split_join_with:
  "ns \<noteq> [] \<Longrightarrow> \<forall>n \<in> set ns. sep \<notin> set n \<Longrightarrow> Split (join_with [sep] ns) sep = ns"
proof (induction ns)
  case Nil
  then show ?case by simp
next
  case (Cons n ns)
  show ?case
  proof (cases "ns = []")
    case True
    with Cons.prems show ?thesis by (simp add: Split_no_sep)
  next
    case False
    with Cons show ?thesis by (simp add: join_with_Cons Split_append_sep)
  qed
qed


lemma clean_elem_valid: "valid_name n \<Longrightarrow> clean_elem r out n = n # out"
  by (simp add: clean_elem_def valid_name_def)

lemma foldl_clean_valid:
  "\<forall>n \<in> set ns. valid_name n \<Longrightarrow> foldl (clean_elem r) out ns = rev ns @ out"
  by (induction ns arbitrary: out) (simp_all add: clean_elem_valid)

lemma join_with_hd:
  "ns \<noteq> [] \<Longrightarrow> hd ns \<noteq> [] \<Longrightarrow>
     join_with sep ns \<noteq> [] \<and> hd (join_with sep ns) = hd (hd ns)"
  by (cases ns; cases "tl ns") auto

lemma Clean_valid:
  assumes "ns \<noteq> []" and "\<forall>n \<in> set ns. valid_name n"
  shows "Clean (join_with ''/'' ns) = join_with ''/'' ns"
proof -
  have hdne: "hd ns \<noteq> []" and hdslash: "CHR ''/'' \<notin> set (hd ns)"
    using assms by (cases ns; simp add: valid_name_def)+
  then have "hd (hd ns) \<noteq> CHR ''/''"
    by (cases "hd ns") auto
  with join_with_hd [OF assms(1) hdne, of "''/''"]
  have ne: "join_with ''/'' ns \<noteq> []" and nr: "hd (join_with ''/'' ns) \<noteq> CHR ''/''"
    by simp_all
  have sp: "Split (join_with ''/'' ns) CHR ''/'' = ns"
    using Split_join_with [OF assms(1), of "CHR ''/''"] assms(2)
    by (simp add: valid_name_def)
  show ?thesis
    using ne nr by (simp add: Clean_def sp foldl_clean_valid [OF assms(2)])
qed




lemma write_all_Nil [simp]: "write_all m [] = m"
  by (simp add: write_all_def)

lemma write_all_Cons [simp]: "write_all m ((p, c) # ws) = write_all (m(p \<mapsto> c)) ws"
  by (simp add: write_all_def)

lemma write_all_append: "write_all m (xs @ ys) = write_all (write_all m xs) ys"
  by (simp add: write_all_def)






lemma copyBundle_layout:
  assumes "copyBundle fl tmpl wt cn url mgmt wl b = Inr wt'"
  shows "files wt' = write_all (files wt)
           [(Join [Join [wl, name b], name b @ ''.yaml''], string_of_bytes (data b)),
            (Join [mgmt, ''templates'', name b @ ''.yaml''],
             Execute tmpl \<lparr> ClusterName = cn, BundleName = name b, WorkloadPath = wl,
                            AppNamespace = ''argocd'', DestinationNamespace = ''default'',
                            RepoUrl = url \<rparr>)]
         \<and> dirs wt' = insert (Join [wl, name b]) (dirs wt)"
  using assms
  by (auto simp add: copyBundle_def Let_def write_file_def make_dir_def string_of_bytes_def
        split: option.splits)

lemma copyBundles_layout:
  "copyBundles fl tmpl wt cn url mgmt wl bundles = Inr wt' \<Longrightarrow>
   files wt' = write_all (files wt)
     (concat (map (\<lambda>b.
           [(Join [Join [wl, name b], name b @ ''.yaml''], string_of_bytes (data b)),
            (Join [mgmt, ''templates'', name b @ ''.yaml''],
             Execute tmpl \<lparr> ClusterName = cn, BundleName = name b, WorkloadPath = wl,
                            AppNamespace = ''argocd'', DestinationNamespace = ''default'',
                            RepoUrl = url \<rparr>)]) bundles))
   \<and> dirs wt' = dirs wt \<union> (\<lambda>b. Join [wl, name b]) ` set bundles"
  (is "_ \<Longrightarrow> files wt' = write_all (files wt) (concat (map ?F bundles)) \<and> _")
proof (induction bundles arbitrary: wt)
  case Nil
  then show ?case by simp
next
  case (Cons b bs)
  from Cons.prems obtain wt1 where
    one: "copyBundle fl tmpl wt cn url mgmt wl b = Inr wt1"
    and rest: "copyBundles fl tmpl wt1 cn url mgmt wl bs = Inr wt'"
    by (auto split: sum.splits)
  have f1: "files wt1 = write_all (files wt) (?F b)"
    and d1: "dirs wt1 = insert (Join [wl, name b]) (dirs wt)"
    using copyBundle_layout [OF one] by blast+
  have f2: "files wt' = write_all (files wt1) (concat (map ?F bs))"
    and d2: "dirs wt' = dirs wt1 \<union> (\<lambda>b. Join [wl, name b]) ` set bs"
    using Cons.IH [OF rest] by blast+
  have "concat (map ?F (b # bs)) = ?F b @ concat (map ?F bs)"
    by simp
  then have "write_all (files wt) (concat (map ?F (b # bs)))
      = write_all (write_all (files wt) (?F b)) (concat (map ?F bs))"
    by (simp only: write_all_append)
  then have "files wt' = write_all (files wt) (concat (map ?F (b # bs)))"
    by (simp only: f2 f1)
  moreover have "dirs wt' = dirs wt \<union> (\<lambda>b. Join [wl, name b]) ` set (b # bs)"
    unfolding d2 d1 by simp
  ultimately show ?case by blast
qed



section \<open>Ordinary names give a consistent layout\<close>

text \<open>
  With a base path of valid names, a valid cluster name and valid bundle names, the paths
  of the layout are the names joined by slashes, and no path is assigned two different
  contents as long as the base files have distinct paths, bundles of one name carry one
  payload, and no base file is \<open>templates/<bundle>.yaml\<close> for a collected bundle.
\<close>

lemma join_with_append:
  "xs \<noteq> [] \<Longrightarrow> ys \<noteq> [] \<Longrightarrow>
     join_with sep (xs @ ys) = join_with sep xs @ sep @ join_with sep ys"
proof (induction xs)
  case Nil
  then show ?case by simp
next
  case (Cons x xs)
  then show ?case by (cases "xs = []") (simp_all add: join_with_Cons)
qed

lemma join_with_nonempty:
  "xs \<noteq> [] \<Longrightarrow> \<forall>n \<in> set xs. valid_name n \<Longrightarrow> join_with sep xs \<noteq> []"
proof -
  assume ne: "xs \<noteq> []" and v: "\<forall>n \<in> set xs. valid_name n"
  from ne have "hd xs \<in> set xs" by simp
  with v have "valid_name (hd xs)" by blast
  then have "hd xs \<noteq> []" by (simp add: valid_name_def)
  with join_with_hd [OF ne this, of sep] show ?thesis by blast
qed

lemma join_with_concat:
  "xss \<noteq> [] \<Longrightarrow> \<forall>xs \<in> set xss. xs \<noteq> [] \<Longrightarrow>
     join_with sep (map (join_with sep) xss) = join_with sep (concat xss)"
proof (induction xss)
  case Nil
  then show ?case by simp
next
  case (Cons xs xss)
  show ?case
  proof (cases "xss = []")
    case True
    then show ?thesis by simp
  next
    case False
    then have "concat xss \<noteq> []" using Cons.prems(2) by (cases xss) auto
    with Cons False show ?thesis
      by (simp add: join_with_Cons join_with_append)
  qed
qed

lemma Join_joins:
  assumes "xss \<noteq> []" and "\<forall>xs \<in> set xss. xs \<noteq> [] \<and> (\<forall>n \<in> set xs. valid_name n)"
  shows "Join (map (join_with ''/'') xss) = join_with ''/'' (concat xss)"
proof -
  have ne: "\<forall>e \<in> set (map (join_with ''/'') xss). e \<noteq> []"
    using assms(2) by (auto simp add: join_with_nonempty)
  then have f: "filter (\<lambda>e. e \<noteq> []) (map (join_with ''/'') xss) = map (join_with ''/'') xss"
    by (simp add: filter_id_conv)
  have c: "concat xss \<noteq> []" "\<forall>n \<in> set (concat xss). valid_name n"
    using assms by (cases xss; auto)+
  have "Join (map (join_with ''/'') xss) = Clean (join_with ''/'' (map (join_with ''/'') xss))"
    using assms(1) unfolding Join_def f by (simp add: Let_def)
  also have "\<dots> = Clean (join_with ''/'' (concat xss))"
    using join_with_concat [OF assms(1), of "''/''"] assms(2) by simp
  also have "\<dots> = join_with ''/'' (concat xss)"
    using Clean_valid [OF c] .
  finally show ?thesis .
qed

lemma valid_yaml:
  assumes "valid_name n"
  shows "valid_name (n @ ''.yaml'')"
proof -
  have slash: "CHR ''/'' \<notin> set (n @ ''.yaml'')"
    using assms by (simp add: valid_name_def)
  have len: "2 < length (n @ ''.yaml'')"
    by simp
  have "n @ ''.yaml'' \<noteq> []"
    by simp
  moreover have "n @ ''.yaml'' \<noteq> ''.''"
  proof
    assume "n @ ''.yaml'' = ''.''"
    then have "length (n @ ''.yaml'') = length ''.''" by (rule arg_cong)
    with len show False by simp
  qed
  moreover have "n @ ''.yaml'' \<noteq> ''..''"
  proof
    assume "n @ ''.yaml'' = ''..''"
    then have "length (n @ ''.yaml'') = length ''..''" by (rule arg_cong)
    with len show False by simp
  qed
  ultimately show ?thesis
    using slash unfolding valid_name_def by blast
qed

lemma join_with_inj:
  assumes "xs \<noteq> []" "ys \<noteq> []" "\<forall>n \<in> set xs. valid_name n" "\<forall>n \<in> set ys. valid_name n"
    and "join_with ''/'' xs = join_with ''/'' ys"
  shows "xs = ys"
proof -
  have sx: "Split (join_with ''/'' xs) CHR ''/'' = xs"
    using Split_join_with [of xs "CHR ''/''"] assms(1,3) by (simp add: valid_name_def)
  have sy: "Split (join_with ''/'' ys) CHR ''/'' = ys"
    using Split_join_with [of ys "CHR ''/''"] assms(2,4) by (simp add: valid_name_def)
  have "xs = Split (join_with ''/'' xs) CHR ''/''"
    by (rule sx [symmetric])
  also have "\<dots> = Split (join_with ''/'' ys) CHR ''/''"
    by (simp only: assms(5))
  also have "\<dots> = ys"
    by (rule sy)
  finally show ?thesis .
qed

lemma entry_files_valid:
  "wf_entry e \<Longrightarrow> (p, src) \<in> set (entry_files e) \<Longrightarrow> p \<noteq> [] \<and> (\<forall>n \<in> set p. valid_name n)"
proof (induction e arbitrary: p)
  case (File nm c)
  then show ?case by simp
next
  case (Dir nm sub)
  from Dir.prems(2) obtain q f where q: "p = nm # q" "f \<in> set sub" "(q, src) \<in> set (entry_files f)"
    by auto
  from Dir.prems(1) q(2) have "wf_entry f" by (simp add: list_all_iff)
  from Dir.IH [OF q(2) this q(3)] Dir.prems(1) q(1) show ?case by simp
qed


lemma valid_fixed: "valid_name ''mgmt''" "valid_name ''workload''" "valid_name ''templates''"
  by (simp_all add: valid_name_def)

lemma layout_paths:
  assumes "Bs \<noteq> []" and "\<forall>n \<in> set Bs. valid_name n" and "valid_name C"
  shows "Join [join_with ''/'' Bs, C, ''mgmt''] = join_with ''/'' (Bs @ [C, ''mgmt''])"
    and "Join [join_with ''/'' Bs, C, ''workload''] = join_with ''/'' (Bs @ [C, ''workload''])"
    and "p \<noteq> [] \<Longrightarrow> \<forall>n \<in> set p. valid_name n \<Longrightarrow>
           Join [Join [join_with ''/'' Bs, C, ''mgmt''], join_with ''/'' p]
             = join_with ''/'' (Bs @ [C, ''mgmt''] @ p)"
    and "valid_name n \<Longrightarrow>
           Join [Join [join_with ''/'' Bs, C, ''mgmt''], ''templates'', n @ ''.yaml'']
             = join_with ''/'' (Bs @ [C, ''mgmt'', ''templates'', n @ ''.yaml''])"
    and "valid_name n \<Longrightarrow>
           Join [Join [Join [join_with ''/'' Bs, C, ''workload''], n], n @ ''.yaml'']
             = join_with ''/'' (Bs @ [C, ''workload'', n, n @ ''.yaml''])"
proof -
  show mg: "Join [join_with ''/'' Bs, C, ''mgmt''] = join_with ''/'' (Bs @ [C, ''mgmt''])"
    using Join_joins [of "[Bs, [C], [''mgmt'']]"] assms valid_fixed by simp
  show wl: "Join [join_with ''/'' Bs, C, ''workload'']
      = join_with ''/'' (Bs @ [C, ''workload''])"
    using Join_joins [of "[Bs, [C], [''workload'']]"] assms valid_fixed by simp
  show "Join [Join [join_with ''/'' Bs, C, ''mgmt''], join_with ''/'' p]
             = join_with ''/'' (Bs @ [C, ''mgmt''] @ p)"
    if "p \<noteq> []" "\<forall>n \<in> set p. valid_name n"
    unfolding mg
    using Join_joins [of "[Bs @ [C, ''mgmt''], p]"] assms valid_fixed that by simp
  show "Join [Join [join_with ''/'' Bs, C, ''mgmt''], ''templates'', n @ ''.yaml'']
             = join_with ''/'' (Bs @ [C, ''mgmt'', ''templates'', n @ ''.yaml''])"
    if "valid_name n"
    unfolding mg
    using Join_joins [of "[Bs @ [C, ''mgmt''], [''templates''], [n @ ''.yaml'']]"]
      assms valid_fixed valid_yaml [OF that] by simp
  have wn: "Join [join_with ''/'' (Bs @ [C, ''workload'']), n]
      = join_with ''/'' (Bs @ [C, ''workload'', n])" if "valid_name n"
    using Join_joins [of "[Bs @ [C, ''workload''], [n]]"] assms valid_fixed that by simp
  show "Join [Join [Join [join_with ''/'' Bs, C, ''workload''], n], n @ ''.yaml'']
             = join_with ''/'' (Bs @ [C, ''workload'', n, n @ ''.yaml''])"
    if "valid_name n"
    unfolding wl wn [OF that]
    using Join_joins [of "[Bs @ [C, ''workload'', n], [n @ ''.yaml'']]"]
      assms valid_fixed that valid_yaml [OF that] by simp
qed


lemma layout_consistent:
  assumes Bs: "Bs \<noteq> []" "\<forall>n \<in> set Bs. valid_name n" and C: "valid_name C"
    and wf: "list_all wf_entry ms"
    and dist: "distinct (map fst (concat (map entry_files ms)))"
    and names: "\<forall>b \<in> set bundles. valid_name (name b)"
    and same: "\<forall>b \<in> set bundles. \<forall>b' \<in> set bundles. name b = name b' \<longrightarrow> data b = data b'"
    and noclash: "\<forall>b \<in> set bundles.
        [''templates'', name b @ ''.yaml''] \<notin> fst ` set (concat (map entry_files ms))"
  shows "\<forall>w \<in> set (spec_base_writes ms (join_with ''/'' Bs) C
                     @ concat (map (spec_bundle_writes (join_with ''/'' Bs) C repoUrl) bundles)).
         \<forall>w' \<in> set (spec_base_writes ms (join_with ''/'' Bs) C
                     @ concat (map (spec_bundle_writes (join_with ''/'' Bs) C repoUrl) bundles)).
           fst w = fst w' \<longrightarrow> snd w = snd w'"
proof -
  let ?B = "join_with ''/'' Bs"
  let ?F = "concat (map entry_files ms)"
  let ?W = "spec_base_writes ms ?B C @ concat (map (spec_bundle_writes ?B C repoUrl) bundles)"
  define R where "R q c \<longleftrightarrow>
      (\<exists>p. q = ''mgmt'' # p \<and> (p, c) \<in> set ?F)
    \<or> (\<exists>b \<in> set bundles. q = [''workload'', name b, name b @ ''.yaml'']
                           \<and> c = string_of_bytes (data b))
    \<or> (\<exists>b \<in> set bundles. q = [''mgmt'', ''templates'', name b @ ''.yaml'']
                           \<and> c = spec_stub ?B C repoUrl (name b))" for q c
  have Fvalid: "p \<noteq> [] \<and> (\<forall>n \<in> set p. valid_name n)" if "(p, c) \<in> set ?F" for p c
  proof -
    from that obtain e where e: "e \<in> set ms" "(p, c) \<in> set (entry_files e)" by auto
    from wf e(1) have "wf_entry e" by (simp add: list_all_iff)
    from entry_files_valid [OF this e(2)] show ?thesis .
  qed
  have Ffun: "c = c'" if "(p, c) \<in> set ?F" "(p, c') \<in> set ?F" for p c c'
    using eq_key_imp_eq_value [OF dist that] .
  have nc: "([''templates'', name b @ ''.yaml''], c) \<notin> set ?F" if "b \<in> set bundles" for b c
  proof
    assume "([''templates'', name b @ ''.yaml''], c) \<in> set ?F"
    then have "fst ([''templates'', name b @ ''.yaml''], c) \<in> fst ` set ?F" by (rule imageI)
    with noclash that show False by simp
  qed
  have Rvalid: "q \<noteq> [] \<and> (\<forall>n \<in> set q. valid_name n)" if "R q c" for q c
    using that Fvalid names valid_fixed valid_yaml unfolding R_def by fastforce
  have Rfun: "c = c'" if r: "R q c" "R q c'" for q c c'
  proof -
    consider (base) p where "q = ''mgmt'' # p" "(p, c) \<in> set ?F"
      | (pay) b where "b \<in> set bundles" "q = [''workload'', name b, name b @ ''.yaml'']"
          "c = string_of_bytes (data b)"
      | (stub) b where "b \<in> set bundles" "q = [''mgmt'', ''templates'', name b @ ''.yaml'']"
          "c = spec_stub ?B C repoUrl (name b)"
      using r(1) unfolding R_def by blast
    then show ?thesis
    proof cases
      case base
      from r(2) base(1) have "(p, c') \<in> set ?F \<or>
          (\<exists>b \<in> set bundles. p = [''templates'', name b @ ''.yaml''])"
        unfolding R_def by auto
      with base(2) nc Ffun show ?thesis by blast
    next
      case pay
      from r(2) pay(2) obtain b' where "b' \<in> set bundles" "name b' = name b"
          "c' = string_of_bytes (data b')"
        unfolding R_def by auto
      with same pay(1,3) show ?thesis by metis
    next
      case stub
      from r(2) stub(2) have "([''templates'', name b @ ''.yaml''], c') \<in> set ?F \<or>
          (\<exists>b' \<in> set bundles. name b' = name b \<and> c' = spec_stub ?B C repoUrl (name b'))"
        unfolding R_def by auto
      with nc [OF stub(1)] stub(3) show ?thesis by auto
    qed
  qed
  have WR: "\<exists>q c. w = (join_with ''/'' (Bs @ C # q), c) \<and> R q c" if "w \<in> set ?W" for w
  proof -
    from that consider (base) "w \<in> set (spec_base_writes ms ?B C)"
      | (bund) b where "b \<in> set bundles" "w \<in> set (spec_bundle_writes ?B C repoUrl b)"
      by auto
    then show ?thesis
    proof cases
      case base
      then obtain p src where ps: "(p, src) \<in> set ?F"
        and w: "w = (Join [Join [?B, C, ''mgmt''], join_with ''/'' p], src)"
        unfolding spec_base_writes_def by auto
      from layout_paths(3) [OF Bs C] Fvalid [OF ps]
      have "Join [Join [?B, C, ''mgmt''], join_with ''/'' p]
          = join_with ''/'' (Bs @ C # ''mgmt'' # p)" by simp
      moreover have "R (''mgmt'' # p) src"
        unfolding R_def using ps by blast
      ultimately show ?thesis using w by blast
    next
      case bund
      from names bund(1) have v: "valid_name (name b)" by blast
      from bund(2) consider
          "w = (Join [Join [Join [?B, C, ''workload''], name b], name b @ ''.yaml''],
                string_of_bytes (data b))"
        | "w = (Join [Join [?B, C, ''mgmt''], ''templates'', name b @ ''.yaml''],
                spec_stub ?B C repoUrl (name b))"
        unfolding spec_bundle_writes_def by auto
      then show ?thesis
      proof cases
        case 1
        have "R [''workload'', name b, name b @ ''.yaml''] (string_of_bytes (data b))"
          unfolding R_def using bund(1) by blast
        with 1 layout_paths(5) [OF Bs C v] show ?thesis by auto
      next
        case 2
        have "R [''mgmt'', ''templates'', name b @ ''.yaml''] (spec_stub ?B C repoUrl (name b))"
          unfolding R_def using bund(1) by blast
        with 2 layout_paths(4) [OF Bs C v] show ?thesis by auto
      qed
    qed
  qed
  show ?thesis
  proof (intro ballI impI)
    fix w w'
    assume w: "w \<in> set ?W" and w': "w' \<in> set ?W" and eq: "fst w = fst w'"
    from WR [OF w] obtain q c where q: "w = (join_with ''/'' (Bs @ C # q), c)" "R q c" by blast
    from WR [OF w'] obtain q' c' where q': "w' = (join_with ''/'' (Bs @ C # q'), c')" "R q' c'"
      by blast
    from eq q(1) q'(1) have j: "join_with ''/'' (Bs @ C # q) = join_with ''/'' (Bs @ C # q')"
      by simp
    have "Bs @ C # q = Bs @ C # q'"
      using Rvalid [OF q(2)] Rvalid [OF q'(2)] Bs C
      by (intro join_with_inj [OF _ _ _ _ j]) auto
    then have "q = q'" by simp
    with q(2) q'(2) Rfun have "c = c'" by blast
    with q(1) q'(1) show "snd w = snd w'" by simp
  qed
qed

section \<open>What DeployToGit commits\<close>

lemma write_all_snoc: "write_all m (ws @ [(q, d)]) = (write_all m ws)(q \<mapsto> d)"
  by (simp add: write_all_def)

lemma write_all_notin: "p \<notin> fst ` set ws \<Longrightarrow> write_all m ws p = m p"
proof (induction ws rule: rev_induct)
  case Nil
  then show ?case by simp
next
  case (snoc w ws)
  then show ?case by (cases w) (auto simp add: write_all_snoc)
qed


lemma deploy_observed:
  assumes cc: "\<And>d repo. CommitChanges sys d repo = Inr (True, repo)"
    and pu: "\<And>r repo po. Push sys r repo po = Inr (repo_worktree repo)"
    and run: "DeployToGit sys r0 k ans arn C url br B pn = (Inr (), r1, tr)"
  shows "\<exists>items creds bundles d copts repo wt0 wt1 wt2.
           listSecrets k ans ''argocd.argoproj.io/secret-type=repository'' = Inr items
         \<and> findCreds url items = Some creds
         \<and> getInlineBundles pn k arn = Inr bundles
         \<and> PlainClone sys r0 d copts = Inr repo
         \<and> repo_worktree repo = Some wt0
         \<and> copyManifests (fs_faults sys) [Dir ''manifests'' (manifests sys)] wt0 ''.''
              (Join [B, C, ''mgmt'']) = Inr wt1
         \<and> copyInlineBundles (fs_faults sys) wt1 C url (Join [B, C, ''mgmt''])
              (Join [B, C, ''workload'']) bundles = Inr wt2
         \<and> r1 = Some wt2"
proof -
  from run obtain items where
    ls: "listSecrets k ans ''argocd.argoproj.io/secret-type=repository'' = Inr items"
    by (cases "listSecrets k ans ''argocd.argoproj.io/secret-type=repository''")
       (simp_all add: DeployToGit_def)
  from run ls obtain creds where fc: "findCreds url items = Some creds"
    by (cases "findCreds url items") (simp_all add: DeployToGit_def)
  from run ls fc obtain bundles where gb: "getInlineBundles pn k arn = Inr bundles"
    by (cases "getInlineBundles pn k arn") (simp_all add: DeployToGit_def)
  define copts where "copts =
     \<lparr> co_URL = url,
       co_Auth = \<lparr> ba_Username = Username creds, ba_Password = Password creds \<rparr>,
       co_RemoteName = DefaultRemoteName, co_ReferenceName = NewBranchReferenceName br,
       co_SingleBranch = True, co_NoCheckout = False, co_NoTags = True \<rparr>"
  note ev = DeployToGit_def Let_def copts_def [symmetric]
  from run ls fc gb obtain repo where
    cl: "PlainClone sys r0 (fst (MkdirTemp sys)) copts = Inr repo"
    by (cases "PlainClone sys r0 (fst (MkdirTemp sys)) copts") (simp_all add: ev)
  from run ls fc gb cl obtain wt0 where w0: "repo_worktree repo = Some wt0"
    by (cases "repo_worktree repo") (simp_all add: ev Worktree_def)
  let ?mg = "Join [B, C, ''mgmt'']"
  let ?wl = "Join [B, C, ''workload'']"
  from run ls fc gb cl w0 obtain wt1 where
    cm: "copyManifests (fs_faults sys) [Dir ''manifests'' (manifests sys)] wt0 ''.'' ?mg = Inr wt1"
    by (cases "copyManifests (fs_faults sys) [Dir ''manifests'' (manifests sys)] wt0 ''.'' ?mg")
       (simp_all add: ev Worktree_def del: copyManifests.simps)
  from run ls fc gb cl w0 cm obtain wt2 where
    cb: "copyInlineBundles (fs_faults sys) wt1 C url ?mg ?wl bundles = Inr wt2"
    by (cases "copyInlineBundles (fs_faults sys) wt1 C url ?mg ?wl bundles")
       (simp_all add: ev Worktree_def del: copyManifests.simps)
  from run ls fc gb cl w0 cm cb have "r1 = Some wt2"
    by (simp add: ev Worktree_def cc pu del: copyManifests.simps)
  with ls fc gb cl w0 cm cb show ?thesis by blast
qed


lemma spec_bundle_writes_eq:
  "spec_bundle_writes B C repoUrl =
      (\<lambda>b. [(Join [Join [Join [B, C, ''workload''], name b], name b @ ''.yaml''],
              string_of_bytes (data b)),
             (Join [Join [B, C, ''mgmt''], ''templates'', name b @ ''.yaml''],
              Execute appTmpl
                \<lparr> ClusterName = C, BundleName = name b,
                  WorkloadPath = Join [B, C, ''workload''], AppNamespace = ''argocd'',
                  DestinationNamespace = ''default'', RepoUrl = repoUrl \<rparr>)])"
  by (rule ext) (simp add: spec_bundle_writes_def spec_stub_def)

text \<open>
  C9. Take a system that commits the working tree it is handed and whose push hands that
  tree to the remote, so that the remote after a successful \<open>DeployToGit\<close> is the tree it
  committed. For every bundle \<open>b\<close> the profile collects whose stub path is not written
  again by a later bundle (the last bundle always), the committed tree holds at
  \<open>B/C/mgmt/templates/<b>.yaml\<close> the text below: its destination name is the cluster
  name of the deploy, its project is \<open>default\<close> and its target revision is the literal
  \<open>HEAD\<close>. The branch of the deploy is a parameter of the run and occurs nowhere in the
  stub.
\<close>

theorem stub_fixed_revision_and_project:
  assumes "\<forall>d repo. CommitChanges sys d repo = Inr (True, repo)"
    and "\<forall>r repo po. Push sys r repo po = Inr (repo_worktree repo)"
    and "DeployToGit sys r0 kubeClient argocdNs arlonNs clusterName repoUrl repoBranch basePath
           profileName = (Inr (), r1, tr)"
    and "getInlineBundles profileName kubeClient arlonNs = Inr (pre @ b # post)"
    and "Join [Join [basePath, clusterName, ''mgmt''], ''templates'', name b @ ''.yaml'']
           \<notin> fst ` set (concat (map (spec_bundle_writes basePath clusterName repoUrl) post))"
  shows "\<exists>wt. r1 = Some wt
       \<and> files wt (Join [Join [basePath, clusterName, ''mgmt''], ''templates'',
                          name b @ ''.yaml'']) =
     Some (''\<newline>apiVersion: argoproj.io/v1alpha1\<newline>kind: Application\<newline>metadata:\<newline>  name: ''
       @ clusterName @ ''-'' @ name b
       @ ''\<newline>  namespace: argocd''
       @ ''\<newline>spec:\<newline>  syncPolicy:\<newline>    automated:\<newline>      prune: true\<newline>  destination:\<newline>    name: ''
       @ clusterName
       @ ''\<newline>    namespace: default''
       @ ''\<newline>  project: default\<newline>  source:\<newline>    repoURL: '' @ repoUrl
       @ ''\<newline>    path: '' @ Join [basePath, clusterName, ''workload''] @ ''/'' @ name b
       @ ''\<newline>    targetRevision: HEAD\<newline>'')"
proof -
  let ?mg = "Join [basePath, clusterName, ''mgmt'']"
  let ?wl = "Join [basePath, clusterName, ''workload'']"
  let ?fl = "fs_faults sys"
  from deploy_observed [OF assms(1) [rule_format] assms(2) [rule_format] assms(3)] assms(4)
  obtain wt1 wt2 where
    cb: "copyInlineBundles ?fl wt1 clusterName repoUrl ?mg ?wl (pre @ b # post) = Inr wt2"
    and r1: "r1 = Some wt2"
    by auto
  from cb have "copyBundles ?fl appTmpl wt1 clusterName repoUrl ?mg ?wl (pre @ b # post) = Inr wt2"
    by (simp add: copyInlineBundles_def split: option.splits)
  then obtain wa wb where
    one: "copyBundle ?fl appTmpl wa clusterName repoUrl ?mg ?wl b = Inr wb"
    and rest: "copyBundles ?fl appTmpl wb clusterName repoUrl ?mg ?wl post = Inr wt2"
    by (auto simp add: copyBundles_append split: sum.splits)
  have "files wt2 = write_all (files wb)
          (concat (map (spec_bundle_writes basePath clusterName repoUrl) post))"
    using copyBundles_layout [OF rest] unfolding spec_bundle_writes_eq by blast
  with assms(5) have "files wt2 (Join [?mg, ''templates'', name b @ ''.yaml''])
      = files wb (Join [?mg, ''templates'', name b @ ''.yaml''])"
    by (simp add: write_all_notin)
  with copyBundle_stub [OF one] r1 show ?thesis
    by simp
qed



lemma ex_paths3:
  "Join [''manifests/templates'', ''cluster.yaml''] = ''manifests/templates/cluster.yaml''"
  "Join [''templates'', ''cluster.yaml''] = ''templates/cluster.yaml''"
  "Join [''clusters/c1/mgmt'', ''templates/cluster.yaml'']
     = ''clusters/c1/mgmt/templates/cluster.yaml''"
  "Split ''manifests/templates/cluster.yaml'' CHR ''/''
     = [''manifests'', ''templates'', ''cluster.yaml'']"
  by (simp_all add: Join_def Clean_def clean_elem_def)

lemma ex_bundles_p1:
  "getInlineBundles ''p1'' ex_kube ''arlon'' =
     Inr [\<lparr> name = ''c'', data = Some ''Z'' \<rparr>, \<lparr> name = ''a'', data = Some ''X'' \<rparr>]"
  by (simp add: getInlineBundles_def ex_kube_def index_str_def index_bytes_def)

lemma ex_observed_run:
  "DeployToGit ex_observer None ex_kube ''argocd'' ''arlon'' ''c1''
     ''https://git.example/repo.git'' ''main'' ''clusters'' ''p1''
   = (Inr (),
      Some \<lparr> files =
               [''README.md'' \<mapsto> ''readme'',
                ''clusters/c1/mgmt/Chart.yaml'' \<mapsto> ''chart'',
                ''clusters/c1/mgmt/templates/cluster.yaml'' \<mapsto> ''base'',
                ''clusters/c1/workload/c/c.yaml'' \<mapsto> ''Z'',
                ''clusters/c1/mgmt/templates/c.yaml'' \<mapsto>
                   spec_stub ''clusters'' ''c1'' ''https://git.example/repo.git'' ''c'',
                ''clusters/c1/workload/a/a.yaml'' \<mapsto> ''X'',
                ''clusters/c1/mgmt/templates/a.yaml'' \<mapsto>
                   spec_stub ''clusters'' ''c1'' ''https://git.example/repo.git'' ''a''],
             dirs = {''clusters/c1/workload/a'', ''clusters/c1/workload/c''} \<rparr>,
      [EvClone ''/tmp/arlon-1'' ex_copts, EvCommitChanges ''/tmp/arlon-1'' (Inr True),
       EvPush ex_popts])"
  by (simp add: DeployToGit_def ex_listSecrets ex_bundles_p1 ex_observer_def ex_repo_def
        ex_chart_def Worktree_def copyInlineBundles_def copyBundle_def
        string_of_bytes_def index_bytes_def NewBranchReferenceName_def
        DefaultRemoteName_def ex_copts_def ex_popts_def ex_paths ex_paths3 ex_split Let_def
        no_faults_def write_file_def make_dir_def spec_stub_def)

theorem stub_fixed_revision_and_project_witness:
  "DeployToGit ex_observer None ex_kube ''argocd'' ''arlon'' ''c1''
     ''https://git.example/repo.git'' ''main'' ''clusters'' ''p1''
   = (Inr (),
      Some \<lparr> files =
               [''README.md'' \<mapsto> ''readme'',
                ''clusters/c1/mgmt/Chart.yaml'' \<mapsto> ''chart'',
                ''clusters/c1/mgmt/templates/cluster.yaml'' \<mapsto> ''base'',
                ''clusters/c1/workload/c/c.yaml'' \<mapsto> ''Z'',
                ''clusters/c1/mgmt/templates/c.yaml'' \<mapsto>
                   spec_stub ''clusters'' ''c1'' ''https://git.example/repo.git'' ''c'',
                ''clusters/c1/workload/a/a.yaml'' \<mapsto> ''X'',
                ''clusters/c1/mgmt/templates/a.yaml'' \<mapsto>
                   spec_stub ''clusters'' ''c1'' ''https://git.example/repo.git'' ''a''],
             dirs = {''clusters/c1/workload/a'', ''clusters/c1/workload/c''} \<rparr>,
      [EvClone ''/tmp/arlon-1'' ex_copts, EvCommitChanges ''/tmp/arlon-1'' (Inr True),
       EvPush ex_popts])
   \<and> spec_stub ''clusters'' ''c1'' ''https://git.example/repo.git'' ''a''
     = ''\<newline>apiVersion: argoproj.io/v1alpha1\<newline>kind: Application\<newline>metadata:\<newline>  name: c1-a\<newline>  namespace: argocd\<newline>spec:\<newline>  syncPolicy:\<newline>    automated:\<newline>      prune: true\<newline>  destination:\<newline>    name: c1\<newline>    namespace: default\<newline>  project: default\<newline>  source:\<newline>    repoURL: https://git.example/repo.git\<newline>    path: clusters/c1/workload/a\<newline>    targetRevision: HEAD\<newline>''"
proof -
  have cc: "\<forall>d repo. CommitChanges ex_observer d repo = Inr (True, repo)"
    and pu: "\<forall>r repo po. Push ex_observer r repo po = Inr (repo_worktree repo)"
    by (simp_all add: ex_observer_def)
  have gb: "getInlineBundles ''p1'' ex_kube ''arlon''
      = Inr ([\<lparr> name = ''c'', data = Some ''Z'' \<rparr>] @ \<lparr> name = ''a'', data = Some ''X'' \<rparr> # [])"
    by (simp add: ex_bundles_p1)
  have last: "Join [Join [''clusters'', ''c1'', ''mgmt''], ''templates'',
                    name \<lparr> name = ''a'', data = Some ''X'' \<rparr> @ ''.yaml'']
      \<notin> fst ` set (concat (map (spec_bundle_writes ''clusters'' ''c1''
                                   ''https://git.example/repo.git'') []))"
    by simp
  from stub_fixed_revision_and_project [OF cc pu ex_observed_run gb last]
  have "files \<lparr> files =
               [''README.md'' \<mapsto> ''readme'',
                ''clusters/c1/mgmt/Chart.yaml'' \<mapsto> ''chart'',
                ''clusters/c1/mgmt/templates/cluster.yaml'' \<mapsto> ''base'',
                ''clusters/c1/workload/c/c.yaml'' \<mapsto> ''Z'',
                ''clusters/c1/mgmt/templates/c.yaml'' \<mapsto>
                   spec_stub ''clusters'' ''c1'' ''https://git.example/repo.git'' ''c'',
                ''clusters/c1/workload/a/a.yaml'' \<mapsto> ''X'',
                ''clusters/c1/mgmt/templates/a.yaml'' \<mapsto>
                   spec_stub ''clusters'' ''c1'' ''https://git.example/repo.git'' ''a''],
             dirs = {''clusters/c1/workload/a'', ''clusters/c1/workload/c''} \<rparr>
           ''clusters/c1/mgmt/templates/a.yaml''
        = Some (''\<newline>apiVersion: argoproj.io/v1alpha1\<newline>kind: Application\<newline>metadata:\<newline>  name: c1-a\<newline>  namespace: argocd\<newline>spec:\<newline>  syncPolicy:\<newline>    automated:\<newline>      prune: true\<newline>  destination:\<newline>    name: c1\<newline>    namespace: default\<newline>  project: default\<newline>  source:\<newline>    repoURL: https://git.example/repo.git\<newline>    path: clusters/c1/workload/a\<newline>    targetRevision: HEAD\<newline>'')"
    by (simp add: ex_paths)
  then have "spec_stub ''clusters'' ''c1'' ''https://git.example/repo.git'' ''a''
     = ''\<newline>apiVersion: argoproj.io/v1alpha1\<newline>kind: Application\<newline>metadata:\<newline>  name: c1-a\<newline>  namespace: argocd\<newline>spec:\<newline>  syncPolicy:\<newline>    automated:\<newline>      prune: true\<newline>  destination:\<newline>    name: c1\<newline>    namespace: default\<newline>  project: default\<newline>  source:\<newline>    repoURL: https://git.example/repo.git\<newline>    path: clusters/c1/workload/a\<newline>    targetRevision: HEAD\<newline>''"
    by simp
  with ex_observed_run show ?thesis by blast
qed


section \<open>Deploying twice\<close>

lemma write_file_overlay: "write_file (overlay v w) p c = overlay v (write_file w p c)"
  by (simp add: write_file_def overlay_def)

lemma make_dir_overlay: "make_dir (overlay v w) p = overlay v (make_dir w p)"
  by (simp add: make_dir_def overlay_def)

lemma overlay_empty: "overlay v \<lparr> files = Map.empty, dirs = {} \<rparr> = v"
  by (simp add: overlay_def)

lemma copyItems_overlay:
  "copyItems fl items (overlay v wt) root mgmt
     = map_sum id (overlay v) (copyItems fl items wt root mgmt)"
proof (induction items arbitrary: root wt
         rule: measure_induct_rule [where f = "size_list size"])
  case (less items)
  show ?case
  proof (cases items)
    case Nil
    then show ?thesis by simp
  next
    case (Cons e rest)
    have sz2: "size_list size rest < size_list size items"
      using Cons by simp
    show ?thesis
    proof (cases e)
      case (File nm src)
      show ?thesis
        unfolding Cons File
        by (simp add: Let_def write_file_overlay less.IH [OF sz2] split: option.splits)
    next
      case (Dir nm sub)
      have sz1: "size_list size sub < size_list size items"
        using Cons Dir by simp
      show ?thesis
        unfolding Cons Dir
        by (simp add: Let_def less.IH [OF sz1] less.IH [OF sz2] split: option.splits sum.splits)
    qed
  qed
qed

lemma copyManifests_overlay:
  "copyManifests fl items (overlay v wt) root mgmt
     = map_sum id (overlay v) (copyManifests fl items wt root mgmt)"
  by (simp add: copyItems_overlay split: option.splits)

lemma copyBundle_overlay:
  "copyBundle fl tmpl (overlay v wt) cn url mgmt wl b
     = map_sum id (overlay v) (copyBundle fl tmpl wt cn url mgmt wl b)"
  by (simp add: copyBundle_def Let_def write_file_overlay make_dir_overlay split: option.splits)

lemma copyBundles_overlay:
  "copyBundles fl tmpl (overlay v wt) cn url mgmt wl bs
     = map_sum id (overlay v) (copyBundles fl tmpl wt cn url mgmt wl bs)"
proof (induction bs arbitrary: wt)
  case Nil
  then show ?case by simp
next
  case (Cons b bs)
  then show ?case
    by (simp add: copyBundle_overlay split: sum.splits)
qed

lemma copyInlineBundles_overlay:
  "copyInlineBundles fl (overlay v wt) cn url mgmt wl bs
     = map_sum id (overlay v) (copyInlineBundles fl wt cn url mgmt wl bs)"
  by (simp add: copyInlineBundles_def copyBundles_overlay split: option.splits)

lemma map_add_twice: "((t ++ a ++ b) ++ a) ++ b = t ++ a ++ b"
  by (rule ext) (simp add: map_add_def split: option.splits)

lemma build_idempotent:
  assumes cm: "copyManifests fl items \<lparr> files = t, dirs = {} \<rparr> root mgmt = Inr wt1"
    and cb: "copyInlineBundles fl wt1 cn url mgmt wl bs = Inr wt2"
  shows "\<exists>wt1' wt2'.
           copyManifests fl items \<lparr> files = files wt2, dirs = {} \<rparr> root mgmt = Inr wt1'
         \<and> copyInlineBundles fl wt1' cn url mgmt wl bs = Inr wt2'
         \<and> files wt2' = files wt2"
proof -
  let ?E = "\<lparr> files = Map.empty, dirs = {} \<rparr>"
  have m: "copyManifests fl items v root mgmt
             = map_sum id (overlay v) (copyManifests fl items ?E root mgmt)" for v
    using copyManifests_overlay [of fl items v ?E root mgmt] by (simp add: overlay_empty)
  have b: "copyInlineBundles fl v cn url mgmt wl bs
             = map_sum id (overlay v) (copyInlineBundles fl ?E cn url mgmt wl bs)" for v
    using copyInlineBundles_overlay [of fl v ?E cn url mgmt wl bs] by (simp add: overlay_empty)
  from cm m [of "\<lparr> files = t, dirs = {} \<rparr>"] obtain d1 where
    d1: "copyManifests fl items ?E root mgmt = Inr d1"
    and wt1: "wt1 = overlay \<lparr> files = t, dirs = {} \<rparr> d1"
    by (cases "copyManifests fl items ?E root mgmt") auto
  from cb b [of wt1] obtain d2 where
    d2: "copyInlineBundles fl ?E cn url mgmt wl bs = Inr d2"
    and wt2: "wt2 = overlay wt1 d2"
    by (cases "copyInlineBundles fl ?E cn url mgmt wl bs") auto
  have f2: "files wt2 = t ++ files d1 ++ files d2"
    by (simp add: wt2 wt1 overlay_def)
  let ?w1 = "overlay \<lparr> files = files wt2, dirs = {} \<rparr> d1"
  let ?w2 = "overlay ?w1 d2"
  have "copyManifests fl items \<lparr> files = files wt2, dirs = {} \<rparr> root mgmt = Inr ?w1"
    using m [of "\<lparr> files = files wt2, dirs = {} \<rparr>"] d1 by simp
  moreover have "copyInlineBundles fl ?w1 cn url mgmt wl bs = Inr ?w2"
    using b [of ?w1] d2 by simp
  moreover have "files ?w2 = files wt2"
    by (simp add: overlay_def f2 map_add_twice)
  ultimately show ?thesis by blast
qed


lemma deploy_git_success:
  assumes "DeployToGit (git_system ms fl tmp cf pf) r0 k ans arn cn url br bp pn
             = (Inr (), r1, tr)"
  shows "\<exists>items creds bs t wt1 wt2.
           listSecrets k ans ''argocd.argoproj.io/secret-type=repository'' = Inr items
         \<and> findCreds url items = Some creds
         \<and> getInlineBundles pn k arn = Inr bs
         \<and> r0 (url, NewBranchReferenceName br) = Some t
         \<and> copyManifests fl [Dir ''manifests'' ms] \<lparr> files = t, dirs = {} \<rparr> ''.''
              (Join [bp, cn, ''mgmt'']) = Inr wt1
         \<and> copyInlineBundles fl wt1 cn url (Join [bp, cn, ''mgmt''])
              (Join [bp, cn, ''workload'']) bs = Inr wt2
         \<and> r1 = r0((url, NewBranchReferenceName br) \<mapsto> files wt2)"
proof -
  from assms obtain items where
    ls: "listSecrets k ans ''argocd.argoproj.io/secret-type=repository'' = Inr items"
    by (cases "listSecrets k ans ''argocd.argoproj.io/secret-type=repository''")
       (simp_all add: DeployToGit_def)
  from assms ls obtain creds where fc: "findCreds url items = Some creds"
    by (cases "findCreds url items") (simp_all add: DeployToGit_def)
  from assms ls fc obtain bs where gb: "getInlineBundles pn k arn = Inr bs"
    by (cases "getInlineBundles pn k arn") (simp_all add: DeployToGit_def)
  from assms ls fc gb have cfn: "cf = None"
    by (cases cf) (simp_all add: DeployToGit_def git_system_def git_clone_def Let_def)
  from assms ls fc gb cfn obtain t where t: "r0 (url, NewBranchReferenceName br) = Some t"
    by (cases "r0 (url, NewBranchReferenceName br)")
       (simp_all add: DeployToGit_def git_system_def git_clone_def Let_def)
  let ?mg = "Join [bp, cn, ''mgmt'']"
  let ?wl = "Join [bp, cn, ''workload'']"
  note ev = DeployToGit_def git_system_def git_clone_def Let_def Worktree_def
  from assms ls fc gb cfn t obtain wt1 where
    cm: "copyManifests fl [Dir ''manifests'' ms] \<lparr> files = t, dirs = {} \<rparr> ''.'' ?mg = Inr wt1"
    by (cases "copyManifests fl [Dir ''manifests'' ms] \<lparr> files = t, dirs = {} \<rparr> ''.'' ?mg")
       (simp_all add: ev del: copyManifests.simps)
  from assms ls fc gb cfn t cm obtain wt2 where
    cb: "copyInlineBundles fl wt1 cn url ?mg ?wl bs = Inr wt2"
    by (cases "copyInlineBundles fl wt1 cn url ?mg ?wl bs")
       (simp_all add: ev del: copyManifests.simps)
  from assms ls fc gb cfn t cm cb
  have "r1 = r0((url, NewBranchReferenceName br) \<mapsto> files wt2)"
    by (auto simp add: ev spec_CommitChanges_def git_push_def simp del: copyManifests.simps
          split: if_splits option.splits)
  with ls fc gb t cm cb show ?thesis by blast
qed

lemma deploy_git_unchanged:
  assumes "listSecrets k ans ''argocd.argoproj.io/secret-type=repository'' = Inr items"
    and "findCreds url items = Some creds"
    and "getInlineBundles pn k arn = Inr bs"
    and "r (url, NewBranchReferenceName br) = Some t"
    and "copyManifests fl [Dir ''manifests'' ms] \<lparr> files = t, dirs = {} \<rparr> ''.''
              (Join [bp, cn, ''mgmt'']) = Inr wt1"
    and "copyInlineBundles fl wt1 cn url (Join [bp, cn, ''mgmt''])
              (Join [bp, cn, ''workload'']) bs = Inr wt2"
    and "files wt2 = t"
  shows "DeployToGit (git_system ms fl tmp None pf) r k ans arn cn url br bp pn
     = (Inr (), r,
        [EvClone (fst tmp)
           \<lparr> co_URL = url,
             co_Auth = \<lparr> ba_Username = Username creds, ba_Password = Password creds \<rparr>,
             co_RemoteName = DefaultRemoteName,
             co_ReferenceName = NewBranchReferenceName br, co_SingleBranch = True,
             co_NoCheckout = False, co_NoTags = True \<rparr>,
         EvCommitChanges (fst tmp) (Inr False)])"
  using assms
  by (simp add: DeployToGit_def git_system_def git_clone_def Let_def Worktree_def
        spec_CommitChanges_def del: copyManifests.simps)

text \<open>
  C1. With the git layer above (a clone that checks out the tree of the branch,
  \<open>gitutils.CommitChanges\<close> as the specification describes it, a push that moves the
  branch to the commit) and the same behaviour of the file systems in both runs: when a
  deploy succeeds and leaves the remote \<open>r1\<close>, a second deploy with the same cluster
  contents, repository URL, branch, base path, cluster name and profile, run against
  \<open>r1\<close> with a clone that is not interrupted, succeeds, finds no change, makes no commit
  and no push, and leaves \<open>r1\<close> as it is. The temporary directories may differ.
\<close>

theorem deploy_idempotent:
  assumes "DeployToGit (git_system ms fl tmp1 cf1 pf1) r0 kubeClient argocdNs arlonNs
             clusterName repoUrl repoBranch basePath profileName = (Inr (), r1, tr1)"
  shows "\<exists>copts.
           DeployToGit (git_system ms fl tmp2 None pf2) r1 kubeClient argocdNs arlonNs
             clusterName repoUrl repoBranch basePath profileName
           = (Inr (), r1, [EvClone (fst tmp2) copts, EvCommitChanges (fst tmp2) (Inr False)])"
proof -
  from deploy_git_success [OF assms] obtain items creds bs t wt1 wt2 where
    ls: "listSecrets kubeClient argocdNs ''argocd.argoproj.io/secret-type=repository'' = Inr items"
    and fc: "findCreds repoUrl items = Some creds"
    and gb: "getInlineBundles profileName kubeClient arlonNs = Inr bs"
    and cm: "copyManifests fl [Dir ''manifests'' ms] \<lparr> files = t, dirs = {} \<rparr> ''.''
              (Join [basePath, clusterName, ''mgmt'']) = Inr wt1"
    and cb: "copyInlineBundles fl wt1 clusterName repoUrl (Join [basePath, clusterName, ''mgmt''])
              (Join [basePath, clusterName, ''workload'']) bs = Inr wt2"
    and r1: "r1 = r0((repoUrl, NewBranchReferenceName repoBranch) \<mapsto> files wt2)"
    by blast
  from build_idempotent [OF cm cb] obtain wt1' wt2' where
    cm': "copyManifests fl [Dir ''manifests'' ms] \<lparr> files = files wt2, dirs = {} \<rparr> ''.''
              (Join [basePath, clusterName, ''mgmt'']) = Inr wt1'"
    and cb': "copyInlineBundles fl wt1' clusterName repoUrl (Join [basePath, clusterName, ''mgmt''])
              (Join [basePath, clusterName, ''workload'']) bs = Inr wt2'"
    and same: "files wt2' = files wt2"
    by blast
  have head: "r1 (repoUrl, NewBranchReferenceName repoBranch) = Some (files wt2)"
    by (simp add: r1)
  from deploy_git_unchanged [where r = r1 and tmp = tmp2 and pf = pf2,
      OF ls fc gb head cm' cb' same]
  show ?thesis by blast
qed


lemma ex_first_deploy:
  "DeployToGit (git_system ex_chart no_faults (''/tmp/arlon-1'', None) None None)
     ex_remote ex_kube ''argocd'' ''arlon'' ''c1'' ''https://git.example/repo.git'' ''main''
     ''clusters'' ''p1''
   = (Inr (),
      ex_remote((''https://git.example/repo.git'', ''refs/heads/main'') \<mapsto>
         [''clusters/c1/mgmt/Chart.yaml'' \<mapsto> ''chart'',
          ''clusters/c1/mgmt/templates/cluster.yaml'' \<mapsto> ''base'',
          ''clusters/c1/workload/c/c.yaml'' \<mapsto> ''Z'',
          ''clusters/c1/mgmt/templates/c.yaml'' \<mapsto>
             spec_stub ''clusters'' ''c1'' ''https://git.example/repo.git'' ''c'',
          ''clusters/c1/workload/a/a.yaml'' \<mapsto> ''X'',
          ''clusters/c1/mgmt/templates/a.yaml'' \<mapsto>
             spec_stub ''clusters'' ''c1'' ''https://git.example/repo.git'' ''a'']),
      [EvClone ''/tmp/arlon-1'' ex_copts, EvCommitChanges ''/tmp/arlon-1'' (Inr True),
       EvPush ex_popts])"
  by (simp add: DeployToGit_def ex_listSecrets ex_bundles_p1 git_system_def
        git_clone_def git_push_def spec_CommitChanges_def Worktree_def copyInlineBundles_def
        copyBundle_def ex_chart_def
        string_of_bytes_def index_bytes_def NewBranchReferenceName_def
        DefaultRemoteName_def ex_copts_def ex_popts_def ex_remote_def ex_paths ex_paths3
        ex_split Let_def no_faults_def write_file_def make_dir_def spec_stub_def)

theorem deploy_idempotent_witness:
  "DeployToGit (git_system ex_chart no_faults (''/tmp/arlon-1'', None) None None)
     ex_remote ex_kube ''argocd'' ''arlon'' ''c1'' ''https://git.example/repo.git'' ''main''
     ''clusters'' ''p1''
   = (Inr (),
      ex_remote((''https://git.example/repo.git'', ''refs/heads/main'') \<mapsto>
         [''clusters/c1/mgmt/Chart.yaml'' \<mapsto> ''chart'',
          ''clusters/c1/mgmt/templates/cluster.yaml'' \<mapsto> ''base'',
          ''clusters/c1/workload/c/c.yaml'' \<mapsto> ''Z'',
          ''clusters/c1/mgmt/templates/c.yaml'' \<mapsto>
             spec_stub ''clusters'' ''c1'' ''https://git.example/repo.git'' ''c'',
          ''clusters/c1/workload/a/a.yaml'' \<mapsto> ''X'',
          ''clusters/c1/mgmt/templates/a.yaml'' \<mapsto>
             spec_stub ''clusters'' ''c1'' ''https://git.example/repo.git'' ''a'']),
      [EvClone ''/tmp/arlon-1'' ex_copts, EvCommitChanges ''/tmp/arlon-1'' (Inr True),
       EvPush ex_popts])
   \<and> (\<exists>copts.
        DeployToGit (git_system ex_chart no_faults (''/tmp/arlon-2'', None) None None)
          (ex_remote((''https://git.example/repo.git'', ''refs/heads/main'') \<mapsto>
             [''clusters/c1/mgmt/Chart.yaml'' \<mapsto> ''chart'',
              ''clusters/c1/mgmt/templates/cluster.yaml'' \<mapsto> ''base'',
              ''clusters/c1/workload/c/c.yaml'' \<mapsto> ''Z'',
              ''clusters/c1/mgmt/templates/c.yaml'' \<mapsto>
                 spec_stub ''clusters'' ''c1'' ''https://git.example/repo.git'' ''c'',
              ''clusters/c1/workload/a/a.yaml'' \<mapsto> ''X'',
              ''clusters/c1/mgmt/templates/a.yaml'' \<mapsto>
                 spec_stub ''clusters'' ''c1'' ''https://git.example/repo.git'' ''a'']))
          ex_kube ''argocd'' ''arlon'' ''c1'' ''https://git.example/repo.git'' ''main''
          ''clusters'' ''p1''
        = (Inr (),
           ex_remote((''https://git.example/repo.git'', ''refs/heads/main'') \<mapsto>
             [''clusters/c1/mgmt/Chart.yaml'' \<mapsto> ''chart'',
              ''clusters/c1/mgmt/templates/cluster.yaml'' \<mapsto> ''base'',
              ''clusters/c1/workload/c/c.yaml'' \<mapsto> ''Z'',
              ''clusters/c1/mgmt/templates/c.yaml'' \<mapsto>
                 spec_stub ''clusters'' ''c1'' ''https://git.example/repo.git'' ''c'',
              ''clusters/c1/workload/a/a.yaml'' \<mapsto> ''X'',
              ''clusters/c1/mgmt/templates/a.yaml'' \<mapsto>
                 spec_stub ''clusters'' ''c1'' ''https://git.example/repo.git'' ''a'']),
           [EvClone ''/tmp/arlon-2'' copts, EvCommitChanges ''/tmp/arlon-2'' (Inr False)]))"
  using deploy_idempotent [OF ex_first_deploy, of "(''/tmp/arlon-2'', None)" None]
    ex_first_deploy
  by simp

end
